theory Spec2Isabelle
  imports Main "HOL-Library.Char_ord" "HOL-Library.List_Lexorder" "HOL-Library.AList"
begin

section \<open>Values, strings and the output buffer\<close>

text \<open>
  A Go \<^verbatim>\<open>any\<close> holding a decoded JSON value. \<open>ANil\<close> is the nil interface
  (an absent key or a JSON null), which the source tests with \<^verbatim>\<open>!= nil\<close>.
\<close>

datatype any = ANil | ABool bool | ANum int | AStr string
  | AArr "any list" | AObj "(string \<times> any) list"

text \<open>
  Library functions of Go that the package calls and whose code is not part of it:
  \<^verbatim>\<open>fmt.Sprintf("%v", v)\<close> and \<^verbatim>\<open>strings.TrimSpace\<close>. They are parameters of
  every function that uses them.
\<close>

record std =
  sprintv :: "any \<Rightarrow> string"
  TrimSpace :: "string \<Rightarrow> string"

text \<open>
  The \<^verbatim>\<open>bytes.Buffer\<close> is the sequence of writes made so far. A call of
  \<^verbatim>\<open>fmt.Fprintf\<close> or \<^verbatim>\<open>fmt.Fprintln\<close> is a \<open>Text\<close> write; a call of
  \<^verbatim>\<open>writeExampleFence(b, label, mediaType, value)\<close>, which lives in another file of the package, is a \<open>Fence\<close> write that records its three arguments.
\<close>

datatype chunk = Text string | Fence string string any

text \<open>\<^verbatim>\<open>b.String()\<close>: \<open>fence\<close> is what \<^verbatim>\<open>writeExampleFence\<close> appends.\<close>

fun flatten :: "(string \<Rightarrow> string \<Rightarrow> any \<Rightarrow> string) \<Rightarrow> chunk list \<Rightarrow> string" where
  "flatten fence [] = []"
| "flatten fence (Text s # cs) = s @ flatten fence cs"
| "flatten fence (Fence l m v # cs) = fence l m v @ flatten fence cs"

text \<open>The em dash of the format strings, as its three UTF-8 bytes.\<close>

definition emdash :: string where
  "emdash = [CHR 0xE2, CHR 0x80, CHR 0x94]"

text \<open>\<^verbatim>\<open>strings.Join\<close>.\<close>

fun Join :: "string list \<Rightarrow> string \<Rightarrow> string" where
  "Join [] sep = []"
| "Join [x] sep = x"
| "Join (x # y # ys) sep = x @ sep @ Join (y # ys) sep"

text \<open>\<^verbatim>\<open>%d\<close> of an \<^verbatim>\<open>int\<close>: decimal digits, with a minus sign when negative.\<close>

fun digits :: "nat \<Rightarrow> string" where
  "digits n = (if n < 10 then [char_of (48 + n)]
               else digits (n div 10) @ [char_of (48 + n mod 10)])"

declare digits.simps [simp del]

definition Itoa :: "int \<Rightarrow> string" where
  "Itoa i = (if i < 0 then CHR ''-'' # digits (nat (- i)) else digits (nat i))"

text \<open>
  A Go map is an association list with distinct keys. The order of the list is the order
  in which a \<^verbatim>\<open>range\<close> statement over the map visits the entries in the run at
  hand: Go leaves that order unspecified, and it differs from run to run.
\<close>

type_synonym ('k, 'v) gomap = "('k \<times> 'v) list"

text \<open>
  The idiom "collect the keys, sort them, look each one up":
  \<^verbatim>\<open>for k := range m { keys = append(keys, k) }; sort.Strings(keys);
  for _, k := range keys { v := m[k]; ... }\<close>.
\<close>

definition sortedEntries :: "('k::linorder, 'v) gomap \<Rightarrow> ('k \<times> 'v) list" where
  "sortedEntries m =
     concat (map (\<lambda>k. case map_of m k of None \<Rightarrow> [] | Some v \<Rightarrow> [(k, v)]) (sort (map fst m)))"

section \<open>Shared helpers (helpers.go)\<close>

definition nonEmpty :: "string \<Rightarrow> string \<Rightarrow> string" where
  "nonEmpty s fallback = (if s = [] then fallback else s)"

fun contains :: "string list \<Rightarrow> string \<Rightarrow> bool" where
  "contains [] v = False"
| "contains (x # xs) v = (if x = v then True else contains xs v)"

definition defaultAsString :: "'a std_scheme \<Rightarrow> any \<Rightarrow> string" where
  "defaultAsString L v = (if v = ANil then [] else sprintv L v)"

definition enumAsString :: "'a std_scheme \<Rightarrow> any list \<Rightarrow> string" where
  "enumAsString L list = (if length list = 0 then [] else Join (map (sprintv L) list) '', '')"

text \<open>\<^verbatim>\<open>strings.LastIndex(s, "/")\<close> for a one-byte separator: -1 when it does not occur.\<close>

fun LastIndex :: "string \<Rightarrow> char \<Rightarrow> int" where
  "LastIndex [] c = - 1"
| "LastIndex (x # xs) c =
     (let r = LastIndex xs c in if 0 \<le> r then r + 1 else if x = c then 0 else - 1)"

definition refName :: "string \<Rightarrow> string" where
  "refName ref =
     (if ref = [] then []
      else let i = LastIndex ref (CHR ''/'') in
        if 0 \<le> i \<and> i + 1 < int (length ref) then drop (nat (i + 1)) ref else ref)"

definition hostURL :: "string list \<Rightarrow> string \<Rightarrow> string \<Rightarrow> string" where
  "hostURL schemes host basePath =
     (let s = (case schemes of [] \<Rightarrow> ''http'' | x # _ \<Rightarrow> x) in
      if host = [] then []
      else if basePath = [] then s @ ''://'' @ host
      else s @ ''://'' @ host @ basePath)"

section \<open>Swagger 2.0 schemas and their summary\<close>

text \<open>
  The fields of \<^verbatim>\<open>spec.Schema\<close> that the package reads. \<open>schema_Items\<close> is the
  pointer \<^verbatim>\<open>Items\<close> (\<open>None\<close> is nil) to a struct whose field \<^verbatim>\<open>Schema\<close> is again
  a pointer. \<open>schema_Ref\<close> is \<^verbatim>\<open>Ref.String()\<close>.
\<close>

datatype schema = Schema
  (schema_Ref: string)
  (schema_Type: "string list")
  (schema_Format: string)
  (schema_Items: "schema option option")
  (schema_Description: string)
  (schema_Properties: "(string \<times> schema) list")
  (schema_Required: "string list")
  (schema_Default: any)
  (schema_Enum: "any list")
  (schema_Example: any)
  (schema_Extensions: "(string \<times> any) list")

definition schemaSummarySwagger2 :: "schema option \<Rightarrow> string" where
  "schemaSummarySwagger2 sp =
     (case sp of None \<Rightarrow> []
      | Some s \<Rightarrow>
        if schema_Ref s \<noteq> [] \<and> refName (schema_Ref s) \<noteq> [] then refName (schema_Ref s)
        else if length (schema_Type s) = 1 \<and> schema_Type s ! 0 = ''array'' \<and> schema_Items s \<noteq> None then
          (case schema_Items s of
             Some (Some it) \<Rightarrow>
               if schema_Ref it \<noteq> [] \<and> refName (schema_Ref it) \<noteq> [] then refName (schema_Ref it) @ ''[]''
               else if length (schema_Type it) > 0 then ''array<'' @ Join (schema_Type it) '','' @ ''>''
               else ''array''
           | _ \<Rightarrow> ''array'')
        else if length (schema_Type s) > 0 then
          (if schema_Format s \<noteq> [] then Join (schema_Type s) '','' @ '' ('' @ schema_Format s @ '')''
           else Join (schema_Type s) '','')
        else [])"

section \<open>OpenAPI 3 schemas and their summary\<close>

text \<open>
  \<^verbatim>\<open>openapi3.SchemaRef\<close> and \<^verbatim>\<open>openapi3.Schema\<close>. \<open>Value\<close>, \<open>Type\<close> and
  \<open>Items\<close> are pointers.
\<close>

datatype schemaRef = SchemaRef
    (sref_Ref: string)
    (sref_Value: "schema3 option")
and schema3 = Schema3
    (schema3_Type: "string list option")
    (schema3_Items: "schemaRef option")
    (schema3_Description: string)
    (schema3_Properties: "(string \<times> schemaRef) list")
    (schema3_Required: "string list")
    (schema3_Default: any)
    (schema3_Enum: "any list")
    (schema3_Example: any)

definition typeOfSchemaRef :: "schemaRef option \<Rightarrow> string" where
  "typeOfSchemaRef rp =
     (case rp of None \<Rightarrow> ''-''
      | Some ref \<Rightarrow>
        (case sref_Value ref of None \<Rightarrow> ''-''
         | Some v \<Rightarrow>
           if sref_Ref ref \<noteq> [] then
             (let i = LastIndex (sref_Ref ref) (CHR ''/'') in
              if 0 \<le> i \<and> i + 1 < int (length (sref_Ref ref))
              then ''$ref:'' @ drop (nat (i + 1)) (sref_Ref ref)
              else ''$ref:'' @ sref_Ref ref)
           else if (case schema3_Type v of None \<Rightarrow> False
                    | Some ts \<Rightarrow> length ts = 1 \<and> ts ! 0 = ''array'') \<and> schema3_Items v \<noteq> None then
             (case schema3_Items v of
                None \<Rightarrow> ''array''
              | Some it \<Rightarrow>
                if sref_Ref it \<noteq> [] \<and> refName (sref_Ref it) \<noteq> [] then refName (sref_Ref it) @ ''[]''
                else (case sref_Value it of
                        None \<Rightarrow> ''array''
                      | Some iv \<Rightarrow>
                        (case schema3_Type iv of
                           None \<Rightarrow> ''array''
                         | Some ts \<Rightarrow> if length ts > 0 then ''array<'' @ Join ts '','' @ ''>'' else ''array'')))
           else (case schema3_Type v of
                   None \<Rightarrow> ''object''
                 | Some ts \<Rightarrow> if length ts > 0 then Join ts '','' else ''object'')))"

section \<open>Swagger 2.0 documents (go-openapi/spec)\<close>

text \<open>
  The fields that the adapter reads. A pointer field is an \<open>option\<close> (\<open>None\<close> is nil),
  a map is a \<open>gomap\<close>. \<open>info\<close>, \<open>contact\<close>, \<open>license\<close> and \<open>tag\<close> have the same
  fields in both libraries and stand for both.
\<close>

record contact =
  contact_Name :: string
  contact_Email :: string

record license =
  license_Name :: string

record info =
  info_Title :: string
  info_Description :: string
  info_Version :: string
  info_Contact :: "contact option"
  info_License :: "license option"

record tag =
  tag_Name :: string
  tag_Description :: string

record securityScheme =
  sec_Type :: string
  sec_Name :: string
  sec_In :: string
  sec_AuthorizationURL :: string
  sec_TokenURL :: string
  sec_Scopes :: "(string, string) gomap"

record parameter =
  param_In :: string
  param_Name :: string
  param_Required :: bool
  param_Type :: string
  param_Schema :: "schema option"
  param_Description :: string
  param_Default :: any
  param_Enum :: "any list"

text \<open>Of \<^verbatim>\<open>Headers\<close> only the number of entries is read: the header names stand for the map.\<close>

record response =
  resp_Description :: string
  resp_Schema :: "schema option"
  resp_Headers :: "string list"
  resp_Examples :: "(string, any) gomap"

record responses =
  responses_StatusCodeResponses :: "(int, response) gomap"
  responses_Default :: "response option"

record operation =
  op_Summary :: string
  op_Description :: string
  op_ID :: string
  op_Produces :: "string list"
  op_Consumes :: "string list"
  op_Tags :: "string list"
  op_Parameters :: "parameter list"
  op_Responses :: "responses option"

record pathItem =
  pi_Get :: "operation option"
  pi_Post :: "operation option"
  pi_Put :: "operation option"
  pi_Delete :: "operation option"
  pi_Patch :: "operation option"
  pi_Options :: "operation option"
  pi_Head :: "operation option"

text \<open>
  \<open>swagger_Paths\<close> is the pointer \<^verbatim>\<open>s.Paths\<close>, and the map inside is \<^verbatim>\<open>s.Paths.Paths\<close>.
  The values of \<^verbatim>\<open>SecurityDefinitions\<close> are pointers.
\<close>

record swagger =
  swagger_Info :: "info option"
  swagger_SecurityDefinitions :: "(string, securityScheme option) gomap"
  swagger_Schemes :: "string list"
  swagger_Host :: string
  swagger_BasePath :: string
  swagger_Tags :: "tag list"
  swagger_Paths :: "(string, pathItem) gomap option"
  swagger_Produces :: "string list"
  swagger_Consumes :: "string list"
  swagger_Definitions :: "(string, schema) gomap"

text \<open>A run-time panic. The only one the adapters can raise is the nil pointer dereference.\<close>

datatype fault = NilDeref

section \<open>Sections shared by the two adapters\<close>

text \<open>The contact and license lines of the overview: the same statements in both adapters.\<close>

definition contactLicense :: "info option \<Rightarrow> chunk list" where
  "contactLicense ip =
     (case ip of None \<Rightarrow> []
      | Some i \<Rightarrow>
        (case info_Contact i of None \<Rightarrow> []
         | Some c \<Rightarrow>
           (if contact_Name c \<noteq> [] then [Text (''- Contact: '' @ contact_Name c @ ''\<newline>'')] else [])
           @ (if contact_Email c \<noteq> [] then [Text (''- Contact Email: '' @ contact_Email c @ ''\<newline>'')] else []))
        @ (case info_License i of None \<Rightarrow> []
           | Some l \<Rightarrow> if license_Name l \<noteq> [] then [Text (''- License: '' @ license_Name l @ ''\<newline>'')] else []))"

definition tagLine :: "tag \<Rightarrow> chunk" where
  "tagLine t =
     (if tag_Description t \<noteq> []
      then Text (''- '' @ tag_Name t @ '' '' @ emdash @ '' '' @ tag_Description t @ ''\<newline>'')
      else Text (''- '' @ tag_Name t @ ''\<newline>''))"

definition tagsSection :: "tag list \<Rightarrow> chunk list" where
  "tagsSection ts =
     Text ''\<newline>## Tags\<newline>'' #
     (if length ts = 0 then [Text ''- None defined\<newline>''] else map tagLine ts)"

text \<open>
  The two buckets of the section "Endpoints by Tag": \<^verbatim>\<open>tagged\<close>, a map from a tag to the
  operations that declare it, and \<^verbatim>\<open>untagged\<close>. \<open>bucketOf\<close> is \<^verbatim>\<open>tagged[tag]\<close>, the nil
  slice when the key is absent; \<open>addRef\<close> is the body of the loop over the operations
  of a path:
  \<^verbatim>\<open>if len(it.op.Tags) == 0 { untagged = append(untagged, ref); continue }
  for _, tag := range it.op.Tags { tagged[tag] = append(tagged[tag], ref) }\<close>.
\<close>

type_synonym 'r buckets = "(string, 'r list) gomap \<times> 'r list"

definition bucketOf :: "(string, 'r list) gomap \<Rightarrow> string \<Rightarrow> 'r list" where
  "bucketOf tagged t = (case map_of tagged t of None \<Rightarrow> [] | Some rs \<Rightarrow> rs)"

definition appendTo :: "'r \<Rightarrow> (string, 'r list) gomap \<Rightarrow> string \<Rightarrow> (string, 'r list) gomap" where
  "appendTo ref tagged t = AList.update t (bucketOf tagged t @ [ref]) tagged"

definition addRef :: "('r \<Rightarrow> string list) \<Rightarrow> 'r buckets \<Rightarrow> 'r \<Rightarrow> 'r buckets" where
  "addRef tagsOf acc ref =
     (if length (tagsOf ref) = 0 then (fst acc, snd acc @ [ref])
      else (foldl (appendTo ref) (fst acc) (tagsOf ref), snd acc))"

definition collectOps :: "('r \<Rightarrow> string list) \<Rightarrow> 'r list \<Rightarrow> 'r buckets" where
  "collectOps tagsOf refs = foldl (addRef tagsOf) ([], []) refs"

text \<open>
  The loops that print the buckets: the tag names sorted, each with its heading and its
  operations, then the untagged ones under their own heading when there are any.
\<close>

definition printBuckets :: "('r \<Rightarrow> chunk list) \<Rightarrow> 'r buckets \<Rightarrow> chunk list" where
  "printBuckets writeOp bs =
     concat (map (\<lambda>name. Text (''\<newline>### '' @ name @ ''\<newline>'') # concat (map writeOp (bucketOf (fst bs) name)))
                 (sort (map fst (fst bs))))
     @ (if length (snd bs) > 0
        then Text ''\<newline>### Untagged\<newline>'' # concat (map writeOp (snd bs))
        else [])"

section \<open>The Swagger 2.0 adapter (swagger2.go)\<close>

subsection \<open>writeSwagger2Operation\<close>

definition paramLine2 :: "'a std_scheme \<Rightarrow> parameter \<Rightarrow> string" where
  "paramLine2 L prm =
     (let req = (if param_Required prm then '' (required)'' else []);
          typ = (if param_Type prm = [] then
                   (case param_Schema prm of
                      Some sc \<Rightarrow> if length (schema_Type sc) > 0 then Join (schema_Type sc) '','' else param_Type prm
                    | None \<Rightarrow> param_Type prm)
                 else param_Type prm);
          desc = TrimSpace L (param_Description prm);
          def = defaultAsString L (param_Default prm);
          enum = enumAsString L (param_Enum prm)
      in ''- '' @ param_In prm @ '' `'' @ param_Name prm @ ''` ('' @ nonEmpty typ ''-'' @ '')'' @ req
         @ (if desc \<noteq> [] then '' '' @ emdash @ '' '' @ desc else [])
         @ (if def \<noteq> [] then '' [default: '' @ def @ '']'' else [])
         @ (if enum \<noteq> [] then '' [enum: '' @ enum @ '']'' else []))"

definition parameters2 :: "'a std_scheme \<Rightarrow> operation \<Rightarrow> chunk list" where
  "parameters2 L op =
     (if length (op_Parameters op) > 0
      then Text ''**Parameters**\<newline>'' # map (\<lambda>prm. Text (paramLine2 L prm @ ''\<newline>'')) (op_Parameters op)
      else [])"

text \<open>The first parameter located in the body that has a schema: the loop with \<^verbatim>\<open>break\<close>.\<close>

definition bodySchemaOf :: "parameter list \<Rightarrow> schema option" where
  "bodySchemaOf ps =
     (case List.find (\<lambda>prm. param_In prm = ''body'' \<and> param_Schema prm \<noteq> None) ps of
        None \<Rightarrow> None
      | Some prm \<Rightarrow> param_Schema prm)"

text \<open>
  The example of the body schema: its own, else the one of its item schema, else the vendor
  extension \<^verbatim>\<open>x-example\<close>. \<open>ANil\<close> when there is none.
\<close>

definition bodyExample :: "schema \<Rightarrow> any" where
  "bodyExample bs =
     (let ex = (if schema_Example bs \<noteq> ANil then schema_Example bs
                else (case schema_Items bs of
                        Some (Some it) \<Rightarrow> if schema_Example it \<noteq> ANil then schema_Example it else ANil
                      | _ \<Rightarrow> ANil))
      in if ex = ANil
         then (case map_of (schema_Extensions bs) ''x-example'' of Some v \<Rightarrow> v | None \<Rightarrow> ex)
         else ex)"

definition requestExample2 :: "operation \<Rightarrow> string list \<Rightarrow> chunk list" where
  "requestExample2 op consumes =
     (case bodySchemaOf (op_Parameters op) of
        None \<Rightarrow> []
      | Some bs \<Rightarrow>
        (let ex = bodyExample bs in
         if ex \<noteq> ANil then
           (if length consumes > 0
            then map (\<lambda>mt. Fence (''Request example ('' @ mt @ '')'') mt ex) consumes
            else [Fence ''Request example'' [] ex])
         else []))"

definition schemaNote2 :: "schema option \<Rightarrow> string" where
  "schemaNote2 sp =
     (case sp of None \<Rightarrow> []
      | Some sc \<Rightarrow>
        (let summary = schemaSummarySwagger2 (Some sc) in
         if summary \<noteq> [] then '' (schema: '' @ summary @ '')'' else []))"

definition responseDesc :: "'a std_scheme \<Rightarrow> string \<Rightarrow> string" where
  "responseDesc L d = (let desc = TrimSpace L d in if desc = [] then ''No description'' else desc)"

definition statusBlock2 :: "'a std_scheme \<Rightarrow> int \<times> response \<Rightarrow> chunk list" where
  "statusBlock2 L cr =
     (let code = fst cr; r = snd cr in
      Text (''- '' @ Itoa code @ '' '' @ emdash @ '' '' @ responseDesc L (resp_Description r)
            @ schemaNote2 (resp_Schema r) @ ''\<newline>'')
      # (if length (resp_Examples r) > 0
         then map (\<lambda>e. Fence (''Response example ('' @ Itoa code @ '', '' @ fst e @ '')'') (fst e) (snd e))
                  (sortedEntries (resp_Examples r))
         else []))"

definition responses2 :: "'a std_scheme \<Rightarrow> operation \<Rightarrow> chunk list" where
  "responses2 L op =
     (case op_Responses op of
        None \<Rightarrow> []
      | Some rs \<Rightarrow>
        if length (responses_StatusCodeResponses rs) > 0 \<or> responses_Default rs \<noteq> None then
          Text ''\<newline>**Responses**\<newline>''
          # concat (map (statusBlock2 L) (sortedEntries (responses_StatusCodeResponses rs)))
          @ (case responses_Default rs of
               None \<Rightarrow> []
             | Some d \<Rightarrow>
               [Text (''- default '' @ emdash @ '' '' @ responseDesc L (resp_Description d)
                      @ schemaNote2 (resp_Schema d) @ ''\<newline>'')])
        else [])"

definition mediaTypes2 :: "string \<Rightarrow> string list \<Rightarrow> chunk list" where
  "mediaTypes2 title mts =
     (if length mts > 0
      then Text title # map (\<lambda>mt. Text (''- '' @ mt @ ''\<newline>'')) mts @ [Text ''\<newline>'']
      else [])"

definition writeSwagger2Operation ::
  "'a std_scheme \<Rightarrow> string \<Rightarrow> string \<Rightarrow> operation \<Rightarrow> string list \<Rightarrow> string list \<Rightarrow> chunk list" where
  "writeSwagger2Operation L method path op globalProduces globalConsumes =
     (let produces = (if length (op_Produces op) = 0 then globalProduces else op_Produces op);
          consumes = (if length (op_Consumes op) = 0 then globalConsumes else op_Consumes op)
      in Text (''\<newline>#### '' @ method @ '' '' @ path @ ''\<newline>'')
         # (if op_Summary op \<noteq> [] then [Text (op_Summary op @ ''\<newline>\<newline>'')] else [])
         @ (if op_Description op \<noteq> [] then [Text (op_Description op @ ''\<newline>\<newline>'')] else [])
         @ (if op_ID op \<noteq> [] then [Text (''_Operation ID_: `'' @ op_ID op @ ''`\<newline>\<newline>'')] else [])
         @ mediaTypes2 ''**Produces**\<newline>'' produces
         @ mediaTypes2 ''**Consumes**\<newline>'' consumes
         @ parameters2 L op
         @ requestExample2 op consumes
         @ responses2 L op)"

subsection \<open>swagger2ToMarkdown\<close>

definition overview2 :: "'a std_scheme \<Rightarrow> swagger \<Rightarrow> chunk list" where
  "overview2 L s =
     (let title = (case swagger_Info s of None \<Rightarrow> ''-''
                   | Some i \<Rightarrow> if info_Title i \<noteq> [] then info_Title i else ''-'');
          version = (case swagger_Info s of None \<Rightarrow> ''-''
                     | Some i \<Rightarrow> if info_Version i \<noteq> [] then info_Version i else ''-'')
      in [Text (''# '' @ title @ ''\<newline>\<newline>''),
          Text ''## Overview\<newline>'',
          Text (''- Version: '' @ version @ ''\<newline>'')]
         @ (case swagger_Info s of None \<Rightarrow> []
            | Some i \<Rightarrow> if info_Description i \<noteq> []
                        then [Text (''- Description: '' @ TrimSpace L (info_Description i) @ ''\<newline>'')]
                        else [])
         @ contactLicense (swagger_Info s))"

definition scopeEntry :: "string \<times> string \<Rightarrow> string" where
  "scopeEntry kv = (if snd kv \<noteq> [] then fst kv @ '' ('' @ snd kv @ '')'' else fst kv)"

definition secLine2 :: "string \<Rightarrow> securityScheme \<Rightarrow> string" where
  "secLine2 name sec =
     ''- '' @ name @ '' '' @ emdash @ '' type='' @ sec_Type sec
     @ (if sec_Name sec \<noteq> [] then '', name='' @ sec_Name sec else [])
     @ (if sec_In sec \<noteq> [] then '', in='' @ sec_In sec else [])
     @ (if sec_AuthorizationURL sec \<noteq> [] then '', authUrl='' @ sec_AuthorizationURL sec else [])
     @ (if sec_TokenURL sec \<noteq> [] then '', tokenUrl='' @ sec_TokenURL sec else [])
     @ (if length (sec_Scopes sec) > 0
        then '', scopes=['' @ Join (sort (map scopeEntry (sec_Scopes sec))) '', '' @ '']''
        else [])"

text \<open>
  \<^verbatim>\<open>for name, sec := range s.SecurityDefinitions\<close>: the entries in the order of the
  \<^verbatim>\<open>range\<close>. \<^verbatim>\<open>sec.Type\<close> dereferences the pointer \<^verbatim>\<open>sec\<close>.
\<close>

fun secLines2 :: "(string, securityScheme option) gomap \<Rightarrow> fault + chunk list" where
  "secLines2 [] = Inr []"
| "secLines2 (e # rest) =
     (case snd e of
        None \<Rightarrow> Inl NilDeref
      | Some sec \<Rightarrow>
        (case secLines2 rest of
           Inl f \<Rightarrow> Inl f
         | Inr cs \<Rightarrow> Inr (Text (secLine2 (fst e) sec @ ''\<newline>'') # cs)))"

definition authentication2 :: "swagger \<Rightarrow> fault + chunk list" where
  "authentication2 s =
     (if length (swagger_SecurityDefinitions s) = 0
      then Inr [Text ''\<newline>## Authentication\<newline>'', Text ''- None defined\<newline>'']
      else (case secLines2 (swagger_SecurityDefinitions s) of
              Inl f \<Rightarrow> Inl f
            | Inr cs \<Rightarrow> Inr (Text ''\<newline>## Authentication\<newline>'' # cs)))"

definition servers2 :: "swagger \<Rightarrow> chunk list" where
  "servers2 s =
     (let hostLine = hostURL (swagger_Schemes s) (swagger_Host s) (swagger_BasePath s) in
      [Text ''\<newline>## Servers\<newline>'',
       if hostLine \<noteq> [] then Text (''- '' @ hostLine @ ''\<newline>'') else Text ''- None defined\<newline>''])"

record opRef =
  ref_Method :: string
  ref_Path :: string
  ref_Op :: operation

definition methodOps2 :: "pathItem \<Rightarrow> (string \<times> operation option) list" where
  "methodOps2 pi =
     [(''GET'', pi_Get pi), (''POST'', pi_Post pi), (''PUT'', pi_Put pi), (''DELETE'', pi_Delete pi),
      (''PATCH'', pi_Patch pi), (''OPTIONS'', pi_Options pi), (''HEAD'', pi_Head pi)]"

text \<open>
  The operations in the order of the two nested loops: the paths sorted, the methods of
  each path in the fixed order, skipping the nil ones.
\<close>

definition pathRefs2 :: "string \<times> pathItem \<Rightarrow> opRef list" where
  "pathRefs2 ppi =
     concat (map (\<lambda>it. case snd it of
                          None \<Rightarrow> []
                        | Some op \<Rightarrow> [\<lparr>ref_Method = fst it, ref_Path = fst ppi, ref_Op = op\<rparr>])
                 (methodOps2 (snd ppi)))"

definition allRefs2 :: "(string, pathItem) gomap \<Rightarrow> opRef list" where
  "allRefs2 paths = concat (map pathRefs2 (sortedEntries paths))"

definition endpoints2 :: "'a std_scheme \<Rightarrow> swagger \<Rightarrow> (string, pathItem) gomap \<Rightarrow> chunk list" where
  "endpoints2 L s paths =
     Text ''\<newline>## Endpoints by Tag\<newline>'' #
     printBuckets
       (\<lambda>ref. writeSwagger2Operation L (ref_Method ref) (ref_Path ref) (ref_Op ref)
                 (swagger_Produces s) (swagger_Consumes s))
       (collectOps (\<lambda>ref. op_Tags (ref_Op ref)) (allRefs2 paths))"

definition propLine2 :: "'a std_scheme \<Rightarrow> schema \<Rightarrow> string \<times> schema \<Rightarrow> string" where
  "propLine2 L sch pp =
     (let pn = fst pp; ps = snd pp;
          typ = nonEmpty (schemaSummarySwagger2 (Some ps)) ''-'';
          desc = TrimSpace L (schema_Description ps);
          req = (if contains (schema_Required sch) pn then '' (required)'' else []);
          def = defaultAsString L (schema_Default ps);
          enum = enumAsString L (schema_Enum ps)
      in ''- `'' @ pn @ ''` ('' @ typ @ '')'' @ req
         @ (if desc \<noteq> [] then '' '' @ emdash @ '' '' @ desc else [])
         @ (if def \<noteq> [] then '' [default: '' @ def @ '']'' else [])
         @ (if enum \<noteq> [] then '' [enum: '' @ enum @ '']'' else []))"

definition schemaBlock2 :: "'a std_scheme \<Rightarrow> string \<times> schema \<Rightarrow> chunk list" where
  "schemaBlock2 L ns =
     (let name = fst ns; sch = snd ns in
      Text (''\<newline>### '' @ name @ ''\<newline>'')
      # (if schema_Description sch \<noteq> [] then [Text (schema_Description sch @ ''\<newline>\<newline>'')] else [])
      @ (if length (schema_Properties sch) > 0
         then Text ''**Properties**\<newline>''
              # map (\<lambda>pp. Text (propLine2 L sch pp @ ''\<newline>'')) (sortedEntries (schema_Properties sch))
         else [])
      @ (if schema_Example sch \<noteq> ANil then [Fence ''Example'' ''application/json'' (schema_Example sch)]
         else (case map_of (schema_Extensions sch) ''x-example'' of
                 Some v \<Rightarrow> [Fence ''Example'' ''application/json'' v]
               | None \<Rightarrow> [])))"

definition schemas2 :: "'a std_scheme \<Rightarrow> swagger \<Rightarrow> chunk list" where
  "schemas2 L s =
     (if length (swagger_Definitions s) > 0
      then Text ''\<newline>## Schemas\<newline>'' # concat (map (schemaBlock2 L) (sortedEntries (swagger_Definitions s)))
      else [])"

text \<open>
  The index of examples. \<^verbatim>\<open>for code, r := range it.op.Responses.StatusCodeResponses\<close>
  visits the status codes in the order of the \<^verbatim>\<open>range\<close>.
\<close>

definition exampleNote2 :: "string \<Rightarrow> string \<Rightarrow> int \<times> response \<Rightarrow> chunk list" where
  "exampleNote2 method p cr =
     (let code = fst cr; r = snd cr in
      if length (resp_Headers r) = 0 \<and> resp_Schema r = None \<and> length (resp_Examples r) = 0 then []
      else if length (resp_Examples r) > 0
      then [Text (''- '' @ method @ '' '' @ p @ '' '' @ Itoa code @ '' '' @ emdash @ '' has inline examples\<newline>'')]
      else [])"

definition pathExamples2 :: "string \<times> pathItem \<Rightarrow> chunk list" where
  "pathExamples2 ppi =
     concat (map (\<lambda>it. case snd it of
                          None \<Rightarrow> []
                        | Some op \<Rightarrow>
                          (case op_Responses op of
                             None \<Rightarrow> []
                           | Some rs \<Rightarrow>
                             concat (map (exampleNote2 (fst it) (fst ppi)) (responses_StatusCodeResponses rs))))
                 (methodOps2 (snd ppi)))"

definition examples2 :: "(string, pathItem) gomap \<Rightarrow> chunk list" where
  "examples2 paths = Text ''\<newline>## Examples\<newline>'' # concat (map pathExamples2 (sortedEntries paths))"

text \<open>
  The body of \<^verbatim>\<open>swagger2ToMarkdown\<close> after the document is parsed: the buffer at the
  end, or the panic that a nil pointer raises on the way (\<^verbatim>\<open>sec.Type\<close> in the
  authentication section, \<^verbatim>\<open>s.Paths.Paths\<close> at the endpoints).
\<close>

definition swagger2Walk :: "'a std_scheme \<Rightarrow> swagger \<Rightarrow> fault + chunk list" where
  "swagger2Walk L s =
     (case authentication2 s of
        Inl f \<Rightarrow> Inl f
      | Inr auth \<Rightarrow>
        (case swagger_Paths s of
           None \<Rightarrow> Inl NilDeref
         | Some paths \<Rightarrow>
           Inr (overview2 L s @ auth @ servers2 s @ tagsSection (swagger_Tags s)
                @ endpoints2 L s paths @ schemas2 L s @ examples2 paths)))"

section \<open>OpenAPI 3 documents (kin-openapi)\<close>

text \<open>
  A \<^verbatim>\<open>*XxxRef\<close> of the library is a pointer to a struct whose field \<^verbatim>\<open>Value\<close> is a
  pointer again: \<open>'a valueRef option\<close>. A pointer is an \<open>option\<close> wherever the adapter
  tests it against nil. The entries of maps and slices that the adapter reads without such a
  test (path items, media types, the schema references of the components and of the
  properties, servers, tags) are plain values: the loader does not leave nil entries there.
\<close>

datatype 'a valueRef = ValueRef (Value: "'a option")

record securityScheme3 =
  ss_Type :: string
  ss_Scheme :: string
  ss_Name :: string
  ss_In :: string

text \<open>Of \<^verbatim>\<open>Variables\<close> only the number of entries is read: the names stand for the map.\<close>

record server =
  server_URL :: string
  server_Variables :: "string list"

record parameter3 =
  p3_Name :: string
  p3_In :: string
  p3_Description :: string
  p3_Required :: bool
  p3_Schema :: "schemaRef option"

record example =
  example_Value :: any

record mediaType =
  media_Schema :: "schemaRef option"
  media_Example :: any
  media_Examples :: "(string, example valueRef option) gomap"

record requestBody =
  rb_Content :: "(string, mediaType) gomap"

record response3 =
  r3_Description :: "string option"
  r3_Content :: "(string, mediaType) gomap"

text \<open>\<open>o3_Responses\<close> is the pointer \<^verbatim>\<open>op.Responses\<close>, and the map inside is \<^verbatim>\<open>op.Responses.Map()\<close>.\<close>

record operation3 =
  o3_Summary :: string
  o3_Description :: string
  o3_Tags :: "string list"
  o3_Parameters :: "parameter3 valueRef option list"
  o3_RequestBody :: "requestBody valueRef option"
  o3_Responses :: "(string, response3 valueRef option) gomap option"

record pathItem3 =
  pi3_Get :: "operation3 option"
  pi3_Post :: "operation3 option"
  pi3_Put :: "operation3 option"
  pi3_Delete :: "operation3 option"
  pi3_Patch :: "operation3 option"
  pi3_Options :: "operation3 option"
  pi3_Head :: "operation3 option"
  pi3_Trace :: "operation3 option"
  pi3_Parameters :: "parameter3 valueRef option list"

record components =
  comp_SecuritySchemes :: "(string, securityScheme3 valueRef option) gomap"
  comp_Schemas :: "(string, schemaRef) gomap"

text \<open>
  \<^verbatim>\<open>openapi3.T\<close>. \<open>t_Paths\<close> is the pointer \<^verbatim>\<open>doc.Paths\<close>, and the map inside is
  \<^verbatim>\<open>doc.Paths.Map()\<close>. \<open>t_Components\<close> is the pointer \<^verbatim>\<open>doc.Components\<close> of the
  library versions that have \<^verbatim>\<open>Paths.Map()\<close>.
\<close>

record T =
  t_OpenAPI :: string
  t_Components :: "components option"
  t_Info :: "info option"
  t_Paths :: "(string, pathItem3) gomap option"
  t_Servers :: "server list"
  t_Tags :: "tag list"

section \<open>The OpenAPI 3 adapter (openapi3.go)\<close>

subsection \<open>writeOpenAPI3Operation\<close>

definition schemaType3 :: "schemaRef option \<Rightarrow> string" where
  "schemaType3 sp =
     (case sp of None \<Rightarrow> ''-''
      | Some r \<Rightarrow> if sref_Value r \<noteq> None then typeOfSchemaRef sp else ''-'')"

definition paramLine3 :: "'a std_scheme \<Rightarrow> parameter3 \<Rightarrow> string" where
  "paramLine3 L par =
     (let req = (if p3_Required par then '' (required)'' else []);
          typ = schemaType3 (p3_Schema par);
          desc = TrimSpace L (p3_Description par);
          def = (case p3_Schema par of None \<Rightarrow> []
                 | Some r \<Rightarrow>
                   (case sref_Value r of None \<Rightarrow> []
                    | Some v \<Rightarrow> if schema3_Default v \<noteq> ANil then sprintv L (schema3_Default v) else []))
      in ''- '' @ p3_In par @ '' `'' @ p3_Name par @ ''` ('' @ typ @ '')'' @ req
         @ (if desc \<noteq> [] then '' '' @ emdash @ '' '' @ desc else [])
         @ (if def \<noteq> [] then '' [default: '' @ def @ '']'' else []))"

text \<open>
  \<^verbatim>\<open>params := append([]*openapi3.ParameterRef{}, pi.Parameters...);
  params = append(params, op.Parameters...)\<close>, then one line for each entry that is not nil.
\<close>

definition paramEntry3 :: "'a std_scheme \<Rightarrow> parameter3 valueRef option \<Rightarrow> chunk list" where
  "paramEntry3 L pr =
     (case pr of None \<Rightarrow> []
      | Some r \<Rightarrow>
        (case Value r of None \<Rightarrow> []
         | Some par \<Rightarrow> [Text (paramLine3 L par @ ''\<newline>'')]))"

definition parameters3 :: "'a std_scheme \<Rightarrow> pathItem3 \<Rightarrow> operation3 \<Rightarrow> chunk list" where
  "parameters3 L pi op =
     (let params = pi3_Parameters pi @ o3_Parameters op in
      if length params > 0
      then Text ''**Parameters**\<newline>'' # concat (map (paramEntry3 L) params)
      else [])"

definition requestMedia3 :: "string \<times> mediaType \<Rightarrow> chunk list" where
  "requestMedia3 mm =
     (let mt = fst mm; media = snd mm in
      Text (''- '' @ mt @ '' '' @ emdash @ '' schema: '' @ schemaType3 (media_Schema media) @ ''\<newline>'')
      # (if media_Example media \<noteq> ANil
         then [Fence (''Request example ('' @ mt @ '')'') mt (media_Example media)]
         else [])
      @ (if length (media_Examples media) > 0
         then concat (map (\<lambda>e. case snd e of
                                  None \<Rightarrow> []
                                | Some exRef \<Rightarrow>
                                  (case Value exRef of
                                     None \<Rightarrow> []
                                   | Some ex \<Rightarrow>
                                     if example_Value ex \<noteq> ANil
                                     then [Fence (''Request example ('' @ fst e @ '', '' @ mt @ '')'') mt (example_Value ex)]
                                     else []))
                          (sortedEntries (media_Examples media)))
         else []))"

definition requestBody3 :: "operation3 \<Rightarrow> chunk list" where
  "requestBody3 op =
     (case o3_RequestBody op of
        None \<Rightarrow> []
      | Some rb \<Rightarrow>
        (case Value rb of
           None \<Rightarrow> []
         | Some body \<Rightarrow>
           if length (rb_Content body) > 0
           then Text ''\<newline>**Request Body**\<newline>'' # concat (map requestMedia3 (sortedEntries (rb_Content body)))
           else []))"

definition responseMedia3 :: "string \<Rightarrow> string \<times> mediaType \<Rightarrow> chunk list" where
  "responseMedia3 code mm =
     (let mt = fst mm; media = snd mm in
      Text (''  - '' @ mt @ '' '' @ emdash @ '' schema: '' @ schemaType3 (media_Schema media) @ ''\<newline>'')
      # (if media_Example media \<noteq> ANil
         then [Fence (''Response example ('' @ code @ '', '' @ mt @ '')'') mt (media_Example media)]
         else [])
      @ (if length (media_Examples media) > 0
         then concat (map (\<lambda>e. case snd e of
                                  None \<Rightarrow> []
                                | Some exRef \<Rightarrow>
                                  (case Value exRef of
                                     None \<Rightarrow> []
                                   | Some ex \<Rightarrow>
                                     if example_Value ex \<noteq> ANil
                                     then [Fence (''Response example ('' @ fst e @ '', '' @ code @ '', '' @ mt @ '')'')
                                                 mt (example_Value ex)]
                                     else []))
                          (sortedEntries (media_Examples media)))
         else []))"

definition statusBlock3 :: "'a std_scheme \<Rightarrow> string \<times> response3 valueRef option \<Rightarrow> chunk list" where
  "statusBlock3 L cr =
     (let code = fst cr in
      case snd cr of
        None \<Rightarrow> []
      | Some r \<Rightarrow>
        (case Value r of
           None \<Rightarrow> []
         | Some resp \<Rightarrow>
           (let desc0 = (case r3_Description resp of None \<Rightarrow> ''No description'' | Some d \<Rightarrow> TrimSpace L d);
                desc = (if desc0 = [] then ''No description'' else desc0)
            in Text (''- '' @ code @ '' '' @ emdash @ '' '' @ desc @ ''\<newline>'')
               # (if length (r3_Content resp) > 0
                  then concat (map (responseMedia3 code) (sortedEntries (r3_Content resp)))
                  else []))))"

definition responses3 :: "'a std_scheme \<Rightarrow> operation3 \<Rightarrow> chunk list" where
  "responses3 L op =
     (case o3_Responses op of
        None \<Rightarrow> []
      | Some respMap \<Rightarrow>
        if length respMap > 0
        then Text ''\<newline>**Responses**\<newline>'' # concat (map (statusBlock3 L) (sortedEntries respMap))
        else [])"

definition writeOpenAPI3Operation ::
  "'a std_scheme \<Rightarrow> string \<Rightarrow> string \<Rightarrow> pathItem3 \<Rightarrow> operation3 \<Rightarrow> chunk list" where
  "writeOpenAPI3Operation L method path pi op =
     Text (''\<newline>#### '' @ method @ '' '' @ path @ ''\<newline>'')
     # (if o3_Summary op \<noteq> [] then [Text (o3_Summary op @ ''\<newline>\<newline>'')] else [])
     @ (if o3_Description op \<noteq> [] then [Text (o3_Description op @ ''\<newline>\<newline>'')] else [])
     @ parameters3 L pi op
     @ requestBody3 op
     @ responses3 L op"

subsection \<open>openAPI3ToMarkdown\<close>

definition overview3 :: "'a std_scheme \<Rightarrow> T \<Rightarrow> chunk list" where
  "overview3 L doc =
     (let title = (case t_Info doc of None \<Rightarrow> ''-''
                   | Some i \<Rightarrow> if info_Title i \<noteq> [] then info_Title i else ''-'');
          desc = (case t_Info doc of None \<Rightarrow> []
                  | Some i \<Rightarrow> if info_Description i \<noteq> [] then TrimSpace L (info_Description i) else []);
          version = (case t_Info doc of
                       None \<Rightarrow> if t_OpenAPI doc \<noteq> [] then t_OpenAPI doc else ''-''
                     | Some i \<Rightarrow> if info_Version i \<noteq> [] then info_Version i
                                 else if t_OpenAPI doc \<noteq> [] then t_OpenAPI doc else ''-'')
      in [Text (''# '' @ title @ ''\<newline>\<newline>''),
          Text ''## Overview\<newline>'',
          Text (''- Version: '' @ version @ ''\<newline>'')]
         @ (if desc \<noteq> [] then [Text (''- Description: '' @ desc @ ''\<newline>'')] else [])
         @ contactLicense (t_Info doc))"

definition secLine3 :: "string \<Rightarrow> securityScheme3 \<Rightarrow> string" where
  "secLine3 name ss =
     ''- '' @ name @ '' '' @ emdash @ '' type='' @ ss_Type ss
     @ (if ss_Scheme ss \<noteq> [] then '', scheme='' @ ss_Scheme ss else [])
     @ (if ss_Name ss \<noteq> [] then '', name='' @ ss_Name ss else [])
     @ (if ss_In ss \<noteq> [] then '', in='' @ ss_In ss else [])"

definition authentication3 :: "components \<Rightarrow> chunk list" where
  "authentication3 comps =
     Text ''\<newline>## Authentication\<newline>'' #
     (if length (comp_SecuritySchemes comps) = 0 then [Text ''- None defined\<newline>'']
      else concat (map (\<lambda>e. case snd e of
                              None \<Rightarrow> []
                            | Some ref \<Rightarrow>
                              (case Value ref of
                                 None \<Rightarrow> []
                               | Some ss \<Rightarrow> [Text (secLine3 (fst e) ss @ ''\<newline>'')]))
                      (sortedEntries (comp_SecuritySchemes comps))))"

definition servers3 :: "T \<Rightarrow> chunk list" where
  "servers3 doc =
     Text ''\<newline>## Servers\<newline>'' #
     (if length (t_Servers doc) = 0 then [Text ''- None defined\<newline>'']
      else map (\<lambda>s. Text (''- '' @ server_URL s
                          @ (if length (server_Variables s) > 0 then '' {vars}'' else []) @ ''\<newline>''))
               (t_Servers doc))"

record opRef3 =
  ref3_Method :: string
  ref3_Path :: string
  ref3_PathItem :: pathItem3
  ref3_Op :: operation3

definition methodOps3 :: "pathItem3 \<Rightarrow> (string \<times> operation3 option) list" where
  "methodOps3 pi =
     [(''GET'', pi3_Get pi), (''POST'', pi3_Post pi), (''PUT'', pi3_Put pi), (''DELETE'', pi3_Delete pi),
      (''PATCH'', pi3_Patch pi), (''OPTIONS'', pi3_Options pi), (''HEAD'', pi3_Head pi),
      (''TRACE'', pi3_Trace pi)]"

definition pathRefs3 :: "string \<times> pathItem3 \<Rightarrow> opRef3 list" where
  "pathRefs3 ppi =
     concat (map (\<lambda>it. case snd it of
                          None \<Rightarrow> []
                        | Some op \<Rightarrow> [\<lparr>ref3_Method = fst it, ref3_Path = fst ppi,
                                       ref3_PathItem = snd ppi, ref3_Op = op\<rparr>])
                 (methodOps3 (snd ppi)))"

definition allRefs3 :: "(string, pathItem3) gomap \<Rightarrow> opRef3 list" where
  "allRefs3 pathMap = concat (map pathRefs3 (sortedEntries pathMap))"

definition endpoints3 :: "'a std_scheme \<Rightarrow> T \<Rightarrow> chunk list" where
  "endpoints3 L doc =
     Text ''\<newline>## Endpoints by Tag\<newline>'' #
     (case t_Paths doc of
        None \<Rightarrow> [Text ''- None defined\<newline>'']
      | Some pathMap \<Rightarrow>
        printBuckets
          (\<lambda>ref. writeOpenAPI3Operation L (ref3_Method ref) (ref3_Path ref) (ref3_PathItem ref) (ref3_Op ref))
          (collectOps (\<lambda>ref. o3_Tags (ref3_Op ref)) (allRefs3 pathMap)))"

definition propLine3 :: "'a std_scheme \<Rightarrow> schema3 \<Rightarrow> string \<times> schemaRef \<Rightarrow> string" where
  "propLine3 L sch pp =
     (let pn = fst pp; ps = snd pp;
          typ = typeOfSchemaRef (Some ps);
          desc = (case sref_Value ps of None \<Rightarrow> [] | Some v \<Rightarrow> TrimSpace L (schema3_Description v));
          def = (case sref_Value ps of None \<Rightarrow> []
                 | Some v \<Rightarrow> if schema3_Default v \<noteq> ANil then sprintv L (schema3_Default v) else []);
          enum = (case sref_Value ps of None \<Rightarrow> []
                  | Some v \<Rightarrow> if length (schema3_Enum v) > 0 then Join (map (sprintv L) (schema3_Enum v)) '', '' else []);
          req = (if contains (schema3_Required sch) pn then '' (required)'' else [])
      in ''- `'' @ pn @ ''` ('' @ typ @ '')'' @ req
         @ (if desc \<noteq> [] then '' '' @ emdash @ '' '' @ desc else [])
         @ (if def \<noteq> [] then '' [default: '' @ def @ '']'' else [])
         @ (if enum \<noteq> [] then '' [enum: '' @ enum @ '']'' else []))"

definition schemaBlock3 :: "'a std_scheme \<Rightarrow> string \<times> schemaRef \<Rightarrow> chunk list" where
  "schemaBlock3 L nr =
     (let name = fst nr; ref = snd nr in
      Text (''\<newline>### '' @ name @ ''\<newline>'')
      # (case sref_Value ref of
           None \<Rightarrow> []
         | Some v \<Rightarrow>
           (if schema3_Description v \<noteq> [] then [Text (schema3_Description v @ ''\<newline>\<newline>'')] else [])
           @ (if length (schema3_Properties v) > 0
              then Text ''**Properties**\<newline>''
                   # map (\<lambda>pp. Text (propLine3 L v pp @ ''\<newline>'')) (sortedEntries (schema3_Properties v))
              else [])
           @ (if schema3_Example v \<noteq> ANil then [Fence ''Example'' ''application/json'' (schema3_Example v)] else [])))"

definition schemas3 :: "'a std_scheme \<Rightarrow> components \<Rightarrow> chunk list" where
  "schemas3 L comps =
     (if length (comp_Schemas comps) > 0
      then Text ''\<newline>## Schemas\<newline>'' # concat (map (schemaBlock3 L) (sortedEntries (comp_Schemas comps)))
      else [])"

text \<open>
  The index of examples. \<^verbatim>\<open>for code, r := range respMap\<close> visits the status codes in
  the order of the \<^verbatim>\<open>range\<close>. The inner loop over the media types only computes
  whether one of them has an example.
\<close>

definition exampleNote3 :: "string \<Rightarrow> string \<Rightarrow> string \<times> response3 valueRef option \<Rightarrow> chunk list" where
  "exampleNote3 method p cr =
     (case snd cr of
        None \<Rightarrow> []
      | Some r \<Rightarrow>
        (case Value r of
           None \<Rightarrow> []
         | Some resp \<Rightarrow>
           if length (r3_Content resp) = 0 then []
           else if list_ex (\<lambda>mm. media_Example (snd mm) \<noteq> ANil \<or> length (media_Examples (snd mm)) > 0)
                           (r3_Content resp)
           then [Text (''- '' @ method @ '' '' @ p @ '' '' @ fst cr @ '' '' @ emdash @ '' has inline examples\<newline>'')]
           else []))"

definition pathExamples3 :: "string \<times> pathItem3 \<Rightarrow> chunk list" where
  "pathExamples3 ppi =
     concat (map (\<lambda>it. case snd it of
                          None \<Rightarrow> []
                        | Some op \<Rightarrow>
                          (case o3_Responses op of
                             None \<Rightarrow> []
                           | Some respMap \<Rightarrow> concat (map (exampleNote3 (fst it) (fst ppi)) respMap)))
                 (methodOps3 (snd ppi)))"

definition examples3 :: "T \<Rightarrow> chunk list" where
  "examples3 doc =
     Text ''\<newline>## Examples\<newline>'' #
     (case t_Paths doc of
        None \<Rightarrow> [Text ''- None defined\<newline>'']
      | Some pathMap \<Rightarrow> concat (map pathExamples3 (sortedEntries pathMap)))"

text \<open>
  The body of \<^verbatim>\<open>openAPI3ToMarkdown\<close> after the document is loaded: the buffer at the
  end, or the panic that \<^verbatim>\<open>doc.Components.SecuritySchemes\<close> raises when
  \<^verbatim>\<open>doc.Components\<close> is nil.
\<close>

definition openAPI3Walk :: "'a std_scheme \<Rightarrow> T \<Rightarrow> fault + chunk list" where
  "openAPI3Walk L doc =
     (case t_Components doc of
        None \<Rightarrow> Inl NilDeref
      | Some comps \<Rightarrow>
        Inr (overview3 L doc @ authentication3 comps @ servers3 doc @ tagsSection (t_Tags doc)
             @ endpoints3 L doc @ schemas3 L comps @ examples3 doc))"

section \<open>The entry points (markdown.go)\<close>

record versionProbe =
  vp_Swagger :: string
  vp_OpenAPI :: string

text \<open>\<^verbatim>\<open>InputFormat\<close> is a string type with three named values.\<close>

definition FormatAuto :: string where "FormatAuto = ''auto''"
definition FormatJSON :: string where "FormatJSON = ''json''"
definition FormatYAML :: string where "FormatYAML = ''yaml''"

record Options =
  opt_Format :: string
  opt_SkipValidation :: bool

text \<open>
  The decoders of the libraries, on the raw bytes, and \<^verbatim>\<open>writeExampleFence\<close>. A decoder
  returns its error message or its result; \<^verbatim>\<open>LoadFromData\<close> returns the pair
  \<^verbatim>\<open>(doc, err)\<close> that the source inspects component by component.
\<close>

record libs = std +
  jsonUnmarshalAny :: "string \<Rightarrow> string + any"
  yamlUnmarshal :: "string \<Rightarrow> string + any"
  jsonMarshal :: "any \<Rightarrow> string + string"
  unmarshalProbe :: "string \<Rightarrow> string + versionProbe"
  unmarshalSwagger :: "string \<Rightarrow> string + swagger"
  LoadFromData :: "string \<Rightarrow> T option \<times> string option"
  writeExampleFence :: "string \<Rightarrow> string \<Rightarrow> any \<Rightarrow> string"

text \<open>The errors that the package builds with \<^verbatim>\<open>fmt.Errorf\<close>, one constructor for each format string.\<close>

datatype error =
    YAMLParseError string
  | YAMLToJSONError string
  | NeitherJSONNorYAML
  | ProbeParseError string
  | ParseSwagger2 string
  | Swagger2Panic fault
  | ParseOpenAPI3 string
  | OpenAPI3NilDocument
  | OpenAPI3Panic fault
  | CouldNotDetect string string

definition HasPrefix :: "string \<Rightarrow> string \<Rightarrow> bool" where
  "HasPrefix s p = (take (length p) s = p)"

definition normalizeToJSON :: "'a libs_scheme \<Rightarrow> string \<Rightarrow> string \<Rightarrow> error + string" where
  "normalizeToJSON L data format =
     (if format = FormatJSON then Inr data
      else if format = FormatYAML then
        (case yamlUnmarshal L data of
           Inl e \<Rightarrow> Inl (YAMLParseError e)
         | Inr v \<Rightarrow>
           (case jsonMarshal L v of
              Inl e \<Rightarrow> Inl (YAMLToJSONError e)
            | Inr jsonData \<Rightarrow> Inr jsonData))
      else
        (case jsonUnmarshalAny L data of
           Inr tmp \<Rightarrow> Inr data
         | Inl e \<Rightarrow>
           (case yamlUnmarshal L data of
              Inr tmp \<Rightarrow>
                (case jsonMarshal L tmp of
                   Inl e' \<Rightarrow> Inl (YAMLToJSONError e')
                 | Inr jsonData \<Rightarrow> Inr jsonData)
            | Inl e' \<Rightarrow> Inl NeitherJSONNorYAML)))"

text \<open>
  A function with the named results \<^verbatim>\<open>(md string, err error)\<close> and a deferred
  \<^verbatim>\<open>recover\<close>. Its body either returns a pair or panics; the deferred function turns
  a panic into \<^verbatim>\<open>md = ""\<close> and an error.
\<close>

definition swagger2Body :: "'a libs_scheme \<Rightarrow> string \<Rightarrow> fault + string \<times> error option" where
  "swagger2Body L data =
     (case unmarshalSwagger L data of
        Inl e \<Rightarrow> Inr ([], Some (ParseSwagger2 e))
      | Inr s \<Rightarrow>
        (case swagger2Walk L s of
           Inl r \<Rightarrow> Inl r
         | Inr b \<Rightarrow> Inr (flatten (writeExampleFence L) b, None)))"

definition swagger2ToMarkdown :: "'a libs_scheme \<Rightarrow> string \<Rightarrow> string \<times> error option" where
  "swagger2ToMarkdown L data =
     (case swagger2Body L data of
        Inl r \<Rightarrow> ([], Some (Swagger2Panic r))
      | Inr res \<Rightarrow> res)"

text \<open>
  \<^verbatim>\<open>opts.SkipValidation\<close> only decides whether \<^verbatim>\<open>doc.Validate\<close> is called, and the
  result of that call is discarded.
\<close>

definition openAPI3Body :: "'a libs_scheme \<Rightarrow> string \<Rightarrow> Options \<Rightarrow> fault + string \<times> error option" where
  "openAPI3Body L data opts =
     (case LoadFromData L data of
        (_, Some e) \<Rightarrow> Inr ([], Some (ParseOpenAPI3 e))
      | (None, None) \<Rightarrow> Inr ([], Some OpenAPI3NilDocument)
      | (Some doc, None) \<Rightarrow>
        (case openAPI3Walk L doc of
           Inl r \<Rightarrow> Inl r
         | Inr b \<Rightarrow> Inr (flatten (writeExampleFence L) b, None)))"

definition openAPI3ToMarkdown :: "'a libs_scheme \<Rightarrow> string \<Rightarrow> Options \<Rightarrow> string \<times> error option" where
  "openAPI3ToMarkdown L data opts =
     (case openAPI3Body L data opts of
        Inl r \<Rightarrow> ([], Some (OpenAPI3Panic r))
      | Inr res \<Rightarrow> res)"

definition ToMarkdown :: "'a libs_scheme \<Rightarrow> string \<Rightarrow> Options \<Rightarrow> string \<times> error option" where
  "ToMarkdown L data opts =
     (case normalizeToJSON L data (opt_Format opts) of
        Inl e \<Rightarrow> ([], Some e)
      | Inr jsonData \<Rightarrow>
        (case unmarshalProbe L jsonData of
           Inl e \<Rightarrow> ([], Some (ProbeParseError e))
         | Inr vp \<Rightarrow>
           if HasPrefix (vp_Swagger vp) ''2.0'' then swagger2ToMarkdown L jsonData
           else if HasPrefix (vp_OpenAPI vp) ''3.'' then openAPI3ToMarkdown L jsonData opts
           else if snd (swagger2ToMarkdown L jsonData) = None
             then (fst (swagger2ToMarkdown L jsonData), None)
           else if snd (openAPI3ToMarkdown L jsonData opts) = None
             then (fst (openAPI3ToMarkdown L jsonData opts), None)
           else ([], Some (CouldNotDetect (vp_Swagger vp) (vp_OpenAPI vp)))))"

section \<open>Notions used in the statements\<close>

text \<open>A write of a request example: a fence whose label starts with \<open>Request example\<close>.\<close>

definition isRequestExample :: "chunk \<Rightarrow> bool" where
  "isRequestExample c = (case c of Text s \<Rightarrow> False | Fence l m v \<Rightarrow> HasPrefix l ''Request example'')"

text \<open>The entries of a parameter list that are not nil and whose value is not nil.\<close>

definition presentParams :: "parameter3 valueRef option list \<Rightarrow> parameter3 list" where
  "presentParams prs =
     concat (map (\<lambda>pr. case pr of None \<Rightarrow> []
                        | Some r \<Rightarrow> (case Value r of None \<Rightarrow> [] | Some par \<Rightarrow> [par])) prs)"



text \<open>
  The section "Endpoints by Tag" as the specification describes it, for a list of
  operations in path and method order. \<open>untaggedOps\<close> are the operations without tags;
  \<open>taggedWith t\<close> are the operations that declare the tag \<open>t\<close>, each as many times as its tag
  list names \<open>t\<close>; \<open>declaredTags\<close> are the tags that some operation declares, sorted, each
  once. \<open>groupedText\<close> is the text of the groups: one group for each declared tag, then the
  group of the untagged operations when there are any.
\<close>

definition untaggedOps :: "('r \<Rightarrow> string list) \<Rightarrow> 'r list \<Rightarrow> 'r list" where
  "untaggedOps tagsOf refs = filter (\<lambda>r. tagsOf r = []) refs"

definition taggedWith :: "('r \<Rightarrow> string list) \<Rightarrow> 'r list \<Rightarrow> string \<Rightarrow> 'r list" where
  "taggedWith tagsOf refs t = concat (map (\<lambda>r. replicate (count_list (tagsOf r) t) r) refs)"

definition declaredTags :: "('r \<Rightarrow> string list) \<Rightarrow> 'r list \<Rightarrow> string list" where
  "declaredTags tagsOf refs = sort (remdups (concat (map tagsOf refs)))"

definition groupedText :: "('r \<Rightarrow> string) \<Rightarrow> ('r \<Rightarrow> string list) \<Rightarrow> 'r list \<Rightarrow> string" where
  "groupedText opText tagsOf refs =
     concat (map (\<lambda>t. ''\<newline>### '' @ t @ ''\<newline>'' @ concat (map opText (taggedWith tagsOf refs t)))
                 (declaredTags tagsOf refs))
     @ (if untaggedOps tagsOf refs = [] then []
        else ''\<newline>### Untagged\<newline>'' @ concat (map opText (untaggedOps tagsOf refs)))"



section \<open>Concrete inputs\<close>

definition plainStd :: std where
  "plainStd = \<lparr>sprintv = (\<lambda>v. ''v''), TrimSpace = (\<lambda>s. s)\<rparr>"

definition noSchema :: schema where
  "noSchema = Schema [] [] [] None [] [] [] ANil [] ANil []"

definition petRefA :: schema where
  "petRefA = Schema ''#/definitions/Pet'' [] [] None [] [] [] ANil [] ANil []"

definition stringSchemaA :: schema where
  "stringSchemaA = Schema [] [''string''] [] None [] [] [] ANil [] ANil []"

definition petArrayA :: schema where
  "petArrayA = Schema [] [''array''] [] (Some (Some petRefA)) [] [] [] ANil [] ANil []"

definition stringArrayA :: schema where
  "stringArrayA = Schema [] [''array''] [] (Some (Some stringSchemaA)) [] [] [] ANil [] ANil []"

definition bareArrayA :: schema where
  "bareArrayA = Schema [] [''array''] [] (Some (Some noSchema)) [] [] [] ANil [] ANil []"

definition noSchema3 :: schema3 where
  "noSchema3 = Schema3 None None [] [] [] ANil [] ANil"

definition petRef3 :: schemaRef where
  "petRef3 = SchemaRef ''#/components/schemas/Pet'' (Some noSchema3)"

definition stringRef3 :: schemaRef where
  "stringRef3 = SchemaRef [] (Some (Schema3 (Some [''string'']) None [] [] [] ANil [] ANil))"

definition petArray3 :: schema3 where
  "petArray3 = Schema3 (Some [''array'']) (Some petRef3) [] [] [] ANil [] ANil"

definition stringArray3 :: schema3 where
  "stringArray3 = Schema3 (Some [''array'']) (Some stringRef3) [] [] [] ANil [] ANil"

definition bareArray3 :: schema3 where
  "bareArray3 = Schema3 (Some [''array'']) (Some (SchemaRef [] (Some noSchema3))) [] [] [] ANil [] ANil"

text \<open>
  A definition with one property whose schema is empty, and an operation whose response
  200 has an empty schema.
\<close>

definition untypedHolder :: schema where
  "untypedHolder = Schema [] [''object''] [] None [] [(''tag'', noSchema)] [] ANil [] ANil []"

definition untypedResponse :: response where
  "untypedResponse = \<lparr>resp_Description = ''ok'', resp_Schema = Some noSchema, resp_Headers = [],
                       resp_Examples = []\<rparr>"

definition untypedGet :: operation where
  "untypedGet = \<lparr>op_Summary = [], op_Description = [], op_ID = [], op_Produces = [], op_Consumes = [],
                  op_Tags = [], op_Parameters = [],
                  op_Responses = Some \<lparr>responses_StatusCodeResponses = [(200, untypedResponse)],
                                          responses_Default = None\<rparr>\<rparr>"

text \<open>An operation whose body parameter carries an example and that consumes two media types.\<close>

definition exampleSchemaA :: schema where
  "exampleSchemaA = Schema [] [''object''] [] None [] [] [] ANil [] (AStr ''rex'') []"

definition bodyParam :: parameter where
  "bodyParam = \<lparr>param_In = ''body'', param_Name = ''pet'', param_Required = True, param_Type = [],
                 param_Schema = Some exampleSchemaA, param_Description = [], param_Default = ANil,
                 param_Enum = []\<rparr>"

definition postPet :: operation where
  "postPet = \<lparr>op_Summary = [], op_Description = [], op_ID = [], op_Produces = [],
               op_Consumes = [''application/json'', ''application/xml''], op_Tags = [],
               op_Parameters = [bodyParam], op_Responses = None\<rparr>"

text \<open>
  An operation of dialect B with one response, status 200, whose JSON content has an
  anonymous example and an example named \<open>alt\<close>.
\<close>

definition altExample :: example where
  "altExample = \<lparr>example_Value = AStr ''second''\<rparr>"

definition altMedia :: mediaType where
  "altMedia = \<lparr>media_Schema = None, media_Example = AStr ''first'',
                media_Examples = [(''alt'', Some (ValueRef (Some altExample)))]\<rparr>"

definition okResponse3 :: response3 where
  "okResponse3 = \<lparr>r3_Description = Some ''ok'', r3_Content = [(''application/json'', altMedia)]\<rparr>"

definition getPets3 :: operation3 where
  "getPets3 = \<lparr>o3_Summary = [], o3_Description = [], o3_Tags = [], o3_Parameters = [],
                o3_RequestBody = None,
                o3_Responses = Some [(''200'', Some (ValueRef (Some okResponse3)))]\<rparr>"

definition emptyItem3 :: pathItem3 where
  "emptyItem3 = \<lparr>pi3_Get = None, pi3_Post = None, pi3_Put = None, pi3_Delete = None, pi3_Patch = None,
                  pi3_Options = None, pi3_Head = None, pi3_Trace = None, pi3_Parameters = []\<rparr>"

text \<open>
  The libraries on an input without version markers that \<^verbatim>\<open>json.Unmarshal\<close> decodes to
  the Swagger document \<open>s\<close> and on which \<^verbatim>\<open>LoadFromData\<close> returns \<open>ld\<close>.
\<close>

definition decoded :: "swagger \<Rightarrow> T option \<times> string option \<Rightarrow> libs" where
  "decoded s ld =
     \<lparr>sprintv = (\<lambda>v. ''v''), TrimSpace = (\<lambda>s. s),
      jsonUnmarshalAny = (\<lambda>d. Inr ANil), yamlUnmarshal = (\<lambda>d. Inr ANil), jsonMarshal = (\<lambda>v. Inr []),
      unmarshalProbe = (\<lambda>d. Inr \<lparr>vp_Swagger = [], vp_OpenAPI = []\<rparr>),
      unmarshalSwagger = (\<lambda>d. Inr s), LoadFromData = (\<lambda>d. ld),
      writeExampleFence = (\<lambda>l m v. l)\<rparr>"

definition jsonOpts :: Options where
  "jsonOpts = \<lparr>opt_Format = FormatJSON, opt_SkipValidation = False\<rparr>"

text \<open>The JSON object \<^verbatim>\<open>{}\<close> as the two libraries decode it: every field is zero or nil.\<close>

definition emptySwagger :: swagger where
  "emptySwagger = \<lparr>swagger_Info = None, swagger_SecurityDefinitions = [], swagger_Schemes = [],
                    swagger_Host = [], swagger_BasePath = [], swagger_Tags = [], swagger_Paths = None,
                    swagger_Produces = [], swagger_Consumes = [], swagger_Definitions = []\<rparr>"

definition emptyT :: T where
  "emptyT = \<lparr>t_OpenAPI = [], t_Components = None, t_Info = None, t_Paths = None,
              t_Servers = [], t_Tags = []\<rparr>"

text \<open>The JSON object \<^verbatim>\<open>{"paths": {}}\<close> as a Swagger 2.0 document.\<close>

definition noPathSwagger :: swagger where
  "noPathSwagger = emptySwagger\<lparr>swagger_Paths := Some []\<rparr>"

text \<open>
  A path item and an operation that both declare the parameter \<open>id\<close> in \<open>path\<close>, with
  different descriptions.
\<close>

definition idParam :: "string \<Rightarrow> parameter3" where
  "idParam d = \<lparr>p3_Name = ''id'', p3_In = ''path'', p3_Description = d, p3_Required = True,
                 p3_Schema = None\<rparr>"

definition idItem3 :: pathItem3 where
  "idItem3 = emptyItem3\<lparr>pi3_Parameters := [Some (ValueRef (Some (idParam ''of the path'')))]\<rparr>"

definition idOp3 :: operation3 where
  "idOp3 = \<lparr>o3_Summary = [], o3_Description = [], o3_Tags = [],
             o3_Parameters = [Some (ValueRef (Some (idParam ''of the operation'')))],
             o3_RequestBody = None, o3_Responses = None\<rparr>"

text \<open>
  A Swagger 2.0 document with two security definitions, \<open>key\<close> and \<open>login\<close>, and the same
  document as a run sees it whose \<^verbatim>\<open>range\<close> over the map visits \<open>login\<close> first.
\<close>

definition keyScheme :: securityScheme where
  "keyScheme = \<lparr>sec_Type = ''apiKey'', sec_Name = ''X-Key'', sec_In = ''header'',
                 sec_AuthorizationURL = [], sec_TokenURL = [], sec_Scopes = []\<rparr>"

definition loginScheme :: securityScheme where
  "loginScheme = \<lparr>sec_Type = ''basic'', sec_Name = [], sec_In = [],
                   sec_AuthorizationURL = [], sec_TokenURL = [], sec_Scopes = []\<rparr>"

definition keyFirst :: swagger where
  "keyFirst = noPathSwagger\<lparr>swagger_SecurityDefinitions :=
                 [(''key'', Some keyScheme), (''login'', Some loginScheme)]\<rparr>"

definition loginFirst :: swagger where
  "loginFirst = keyFirst\<lparr>swagger_SecurityDefinitions := rev (swagger_SecurityDefinitions keyFirst)\<rparr>"

text \<open>
  A Swagger 2.0 document and an OpenAPI 3 document with a title, a version and an empty
  paths object, and nothing else.
\<close>

definition minimalInfo :: info where
  "minimalInfo = \<lparr>info_Title = ''Minimal API'', info_Description = [], info_Version = ''1.0.0'',
                   info_Contact = None, info_License = None\<rparr>"

definition minimalSwagger :: swagger where
  "minimalSwagger = noPathSwagger\<lparr>swagger_Info := Some minimalInfo\<rparr>"

definition minimalT :: T where
  "minimalT = \<lparr>t_OpenAPI = ''3.0.0'',
                t_Components = Some \<lparr>comp_SecuritySchemes = [], comp_Schemas = []\<rparr>,
                t_Info = Some minimalInfo, t_Paths = Some [], t_Servers = [], t_Tags = []\<rparr>"


text \<open>
  Paths of dialect B with one operation tagged \<open>a\<close> and \<open>b\<close>, and with one operation whose
  tag list names \<open>a\<close> twice; paths of dialect A with one operation without tags.
\<close>

definition taggedOp :: "string list \<Rightarrow> operation3" where
  "taggedOp ts = \<lparr>o3_Summary = [], o3_Description = [], o3_Tags = ts, o3_Parameters = [],
                   o3_RequestBody = None, o3_Responses = None\<rparr>"

definition taggedPaths :: "string list \<Rightarrow> (string, pathItem3) gomap" where
  "taggedPaths ts = [(''/pets'', emptyItem3\<lparr>pi3_Get := Some (taggedOp ts)\<rparr>)]"

definition emptyItem :: pathItem where
  "emptyItem = \<lparr>pi_Get = None, pi_Post = None, pi_Put = None, pi_Delete = None, pi_Patch = None,
                 pi_Options = None, pi_Head = None\<rparr>"

definition postPaths :: "(string, pathItem) gomap" where
  "postPaths = [(''/pets'', emptyItem\<lparr>pi_Post := Some postPet\<rparr>)]"






section \<open>Auxiliary facts\<close>

lemma filter_concat_map_empty:
  "(\<And>x. x \<in> set xs \<Longrightarrow> filter P (f x) = []) \<Longrightarrow> filter P (concat (map f xs)) = []"
  by (induction xs) auto

lemma filter_map_empty:
  "(\<And>x. x \<in> set xs \<Longrightarrow> \<not> P (f x)) \<Longrightarrow> filter P (map f xs) = []"
  by (induction xs) auto

lemma filter_all: "(\<And>x. x \<in> set xs \<Longrightarrow> P x) \<Longrightarrow> filter P xs = xs"
  by (induction xs) auto

lemma LastIndex_sep: "c \<notin> set name \<Longrightarrow> LastIndex (p @ c # name) c = int (length p)"
proof (induction p)
  case Nil
  then show ?case by (induction name) (auto simp: Let_def)
next
  case (Cons a p)
  then show ?case by (simp add: Let_def)
qed

lemma refName_named:
  assumes "name \<noteq> []" "CHR ''/'' \<notin> set name"
  shows "refName (p @ ''/'' @ name) = name"
proof -
  have n: "nat (int (length p) + 1) = Suc (length p)" by arith
  show ?thesis
    using assms LastIndex_sep [of "CHR ''/''" name p] by (simp add: refName_def Let_def n)
qed

lemma sortedEntries_mem: "map_of m k = Some v \<Longrightarrow> (k, v) \<in> set (sortedEntries m)"
proof -
  assume a: "map_of m k = Some v"
  then have "k \<in> set (sort (map fst m))"
    by (force dest: map_of_SomeD)
  with a show ?thesis
    unfolding sortedEntries_def by force
qed

lemma flatten_append: "flatten f (xs @ ys) = flatten f xs @ flatten f ys"
  by (induction f xs rule: flatten.induct) simp_all

lemma flatten_concat_map: "flatten f (concat (map g xs)) = concat (map (\<lambda>x. flatten f (g x)) xs)"
  by (induction xs) (simp_all add: flatten_append)

section \<open>The schema summarizers\<close>

text \<open>
  C5. The summarizers look at the declared type of a node only when the node is not
  itself a reference: a reference is summarized first, by what it refers to. For such a
  node whose declared type is exactly \<open>array\<close> and that has an item schema: when the item
  schema is a reference to the named definition \<open>name\<close> the summary is \<open>name[]\<close>; when the
  item schema is no reference and declares types, the summary is \<open>array<t1,t2,...>\<close>; when
  the item schema has neither, the summary is the bare \<open>array\<close>. This holds for the
  summarizers of both dialects.
\<close>

theorem array_summary:
  "(schema_Ref s = [] \<and> schema_Type s = [''array''] \<and> schema_Items s = Some (Some it) \<longrightarrow>
      (schema_Ref it = p @ ''/'' @ name \<and> name \<noteq> [] \<and> CHR ''/'' \<notin> set name
         \<longrightarrow> schemaSummarySwagger2 (Some s) = name @ ''[]'')
    \<and> (schema_Ref it = [] \<and> schema_Type it \<noteq> []
         \<longrightarrow> schemaSummarySwagger2 (Some s) = ''array<'' @ Join (schema_Type it) '','' @ ''>'')
    \<and> (schema_Ref it = [] \<and> schema_Type it = []
         \<longrightarrow> schemaSummarySwagger2 (Some s) = ''array''))
   \<and> (sref_Ref r = [] \<and> sref_Value r = Some v \<and> schema3_Type v = Some [''array'']
        \<and> schema3_Items v = Some it3 \<longrightarrow>
      (sref_Ref it3 = p @ ''/'' @ name \<and> name \<noteq> [] \<and> CHR ''/'' \<notin> set name
         \<longrightarrow> typeOfSchemaRef (Some r) = name @ ''[]'')
    \<and> (sref_Ref it3 = [] \<and> sref_Value it3 = Some iv \<and> schema3_Type iv = Some ts \<and> ts \<noteq> []
         \<longrightarrow> typeOfSchemaRef (Some r) = ''array<'' @ Join ts '','' @ ''>'')
    \<and> (sref_Ref it3 = []
        \<and> (sref_Value it3 = None
           \<or> sref_Value it3 = Some iv \<and> (schema3_Type iv = None \<or> schema3_Type iv = Some []))
         \<longrightarrow> typeOfSchemaRef (Some r) = ''array''))"
  using refName_named [of name p]
  by (auto simp: schemaSummarySwagger2_def typeOfSchemaRef_def)

theorem array_summary_witness:
  "schemaSummarySwagger2 (Some petArrayA) = ''Pet[]''
   \<and> schemaSummarySwagger2 (Some stringArrayA) = ''array<string>''
   \<and> schemaSummarySwagger2 (Some bareArrayA) = ''array''
   \<and> typeOfSchemaRef (Some (SchemaRef [] (Some petArray3))) = ''Pet[]''
   \<and> typeOfSchemaRef (Some (SchemaRef [] (Some stringArray3))) = ''array<string>''
   \<and> typeOfSchemaRef (Some (SchemaRef [] (Some bareArray3))) = ''array''"
  using
    array_summary [where s = petArrayA and it = petRefA and p = "''#/definitions''" and name = "''Pet''"
      and r = "SchemaRef [] (Some petArray3)" and v = petArray3 and ?it3.0 = petRef3]
    array_summary [where s = petArrayA and it = petRefA and p = "''#/components/schemas''" and name = "''Pet''"
      and r = "SchemaRef [] (Some petArray3)" and v = petArray3 and ?it3.0 = petRef3]
    array_summary [where s = stringArrayA and it = stringSchemaA
      and r = "SchemaRef [] (Some stringArray3)" and v = stringArray3 and ?it3.0 = stringRef3
      and iv = "Schema3 (Some [''string'']) None [] [] [] ANil [] ANil" and ts = "[''string'']"]
    array_summary [where s = bareArrayA and it = noSchema
      and r = "SchemaRef [] (Some bareArray3)" and v = bareArray3
      and ?it3.0 = "SchemaRef [] (Some noSchema3)" and iv = noSchema3]
  by (simp add: petArrayA_def petRefA_def stringArrayA_def stringSchemaA_def bareArrayA_def noSchema_def
        petArray3_def petRef3_def stringArray3_def stringRef3_def bareArray3_def noSchema3_def)

lemma propLine2_untyped:
  assumes "schema_Ref s = []" and "schema_Type s = []"
  shows "propLine2 L sch (pn, s) =
           ''- `'' @ pn @ ''` (-)'' @ (if contains (schema_Required sch) pn then '' (required)'' else [])
           @ (if TrimSpace L (schema_Description s) \<noteq> []
              then '' '' @ emdash @ '' '' @ TrimSpace L (schema_Description s) else [])
           @ (if defaultAsString L (schema_Default s) \<noteq> []
              then '' [default: '' @ defaultAsString L (schema_Default s) @ '']'' else [])
           @ (if enumAsString L (schema_Enum s) \<noteq> []
              then '' [enum: '' @ enumAsString L (schema_Enum s) @ '']'' else [])"
proof -
  have "schemaSummarySwagger2 (Some s) = []"
    using assms by (simp add: schemaSummarySwagger2_def)
  then show ?thesis
    by (simp add: propLine2_def Let_def nonEmpty_def)
qed

lemma schemaBlock2_property:
  assumes "map_of (schema_Properties sch) pn = Some s"
  shows "Text (propLine2 L sch (pn, s) @ ''\<newline>'') \<in> set (schemaBlock2 L (name, sch))"
proof -
  have m: "(pn, s) \<in> set (sortedEntries (schema_Properties sch))"
    using assms by (rule sortedEntries_mem)
  then have "schema_Properties sch \<noteq> []"
    by (auto simp: sortedEntries_def)
  with m show ?thesis
    by (force simp: schemaBlock2_def Let_def)
qed

lemma statusBlock2_untyped:
  assumes "schema_Ref s = []" and "schema_Type s = []" and "resp_Schema r = Some s"
  shows "hd (statusBlock2 L (code, r)) =
           Text (''- '' @ Itoa code @ '' '' @ emdash @ '' '' @ responseDesc L (resp_Description r) @ ''\<newline>'')"
proof -
  have "schemaSummarySwagger2 (Some s) = []"
    using assms(1,2) by (simp add: schemaSummarySwagger2_def)
  then show ?thesis
    using assms(3) by (simp add: statusBlock2_def Let_def schemaNote2_def)
qed

lemma responses2_status:
  assumes "op_Responses op = Some rs" and "map_of (responses_StatusCodeResponses rs) code = Some r"
  shows "hd (statusBlock2 L (code, r)) \<in> set (responses2 L op)"
proof -
  have m: "(code, r) \<in> set (sortedEntries (responses_StatusCodeResponses rs))"
    using assms(2) by (rule sortedEntries_mem)
  then have ne: "responses_StatusCodeResponses rs \<noteq> []"
    by (auto simp: sortedEntries_def)
  have "hd (statusBlock2 L (code, r)) \<in> set (statusBlock2 L (code, r))"
    by (simp add: statusBlock2_def Let_def)
  with m ne show ?thesis
    using assms(1) by (force simp: responses2_def)
qed

text \<open>
  C6, as amended. The summarizers are total: every pointer they follow is tested first, and
  a nil node gives the empty string in dialect A and \<open>-\<close> in dialect B, as does a node of
  dialect B without a value. For a node that is no reference and declares no type, the
  summarizer of dialect B returns \<open>object\<close> and the one of dialect A returns the empty
  string. In dialect A the line of such a property in the list of schema properties shows
  \<open>(-)\<close> as its type, and the line of a response with such a schema, which is a line of the
  responses of its operation, carries no schema note.
\<close>

theorem summary_fallback:
  "(schema_Ref s = [] \<and> schema_Type s = [] \<longrightarrow>
      schemaSummarySwagger2 (Some s) = []
      \<and> nonEmpty (schemaSummarySwagger2 (Some s)) ''-'' = ''-''
      \<and> schemaNote2 (Some s) = []
      \<and> propLine2 L sch (pn, s) =
           ''- `'' @ pn @ ''` (-)'' @ (if contains (schema_Required sch) pn then '' (required)'' else [])
           @ (if TrimSpace L (schema_Description s) \<noteq> []
              then '' '' @ emdash @ '' '' @ TrimSpace L (schema_Description s) else [])
           @ (if defaultAsString L (schema_Default s) \<noteq> []
              then '' [default: '' @ defaultAsString L (schema_Default s) @ '']'' else [])
           @ (if enumAsString L (schema_Enum s) \<noteq> []
              then '' [enum: '' @ enumAsString L (schema_Enum s) @ '']'' else [])
      \<and> (map_of (schema_Properties sch) pn = Some s \<longrightarrow>
            Text (propLine2 L sch (pn, s) @ ''\<newline>'') \<in> set (schemaBlock2 L (name, sch)))
      \<and> (resp_Schema resp = Some s \<longrightarrow>
            hd (statusBlock2 L (code, resp)) =
              Text (''- '' @ Itoa code @ '' '' @ emdash @ '' '' @ responseDesc L (resp_Description resp)
                    @ ''\<newline>'')
            \<and> (op_Responses op = Some rs \<and> map_of (responses_StatusCodeResponses rs) code = Some resp \<longrightarrow>
                  Text (''- '' @ Itoa code @ '' '' @ emdash @ '' '' @ responseDesc L (resp_Description resp)
                        @ ''\<newline>'') \<in> set (responses2 L op))))
   \<and> (sref_Ref r = [] \<and> sref_Value r = Some v \<and> (schema3_Type v = None \<or> schema3_Type v = Some []) \<longrightarrow>
      typeOfSchemaRef (Some r) = ''object'')
   \<and> schemaSummarySwagger2 None = []
   \<and> typeOfSchemaRef None = ''-''
   \<and> typeOfSchemaRef (Some (SchemaRef ref None)) = ''-''"
proof -
  have a: "schema_Ref s = [] \<and> schema_Type s = [] \<longrightarrow>
      schemaSummarySwagger2 (Some s) = []
      \<and> nonEmpty (schemaSummarySwagger2 (Some s)) ''-'' = ''-''
      \<and> schemaNote2 (Some s) = []"
    by (auto simp: schemaSummarySwagger2_def nonEmpty_def schemaNote2_def)
  have b: "(sref_Ref r = [] \<and> sref_Value r = Some v \<and> (schema3_Type v = None \<or> schema3_Type v = Some []) \<longrightarrow>
      typeOfSchemaRef (Some r) = ''object'')
   \<and> schemaSummarySwagger2 None = []
   \<and> typeOfSchemaRef None = ''-''
   \<and> typeOfSchemaRef (Some (SchemaRef ref None)) = ''-''"
    by (auto simp: schemaSummarySwagger2_def typeOfSchemaRef_def)
  have c: "resp_Schema resp = Some s \<Longrightarrow> schema_Ref s = [] \<Longrightarrow> schema_Type s = [] \<Longrightarrow>
           op_Responses op = Some rs \<Longrightarrow> map_of (responses_StatusCodeResponses rs) code = Some resp \<Longrightarrow>
           Text (''- '' @ Itoa code @ '' '' @ emdash @ '' '' @ responseDesc L (resp_Description resp)
                        @ ''\<newline>'') \<in> set (responses2 L op)"
    using responses2_status [of op rs code resp L] statusBlock2_untyped [of s resp L code] by simp
  show ?thesis
    using a b c propLine2_untyped [of s L sch pn] schemaBlock2_property [of sch pn s L name]
      statusBlock2_untyped [of s resp L code]
    by blast
qed

theorem summary_fallback_witness:
  "schemaSummarySwagger2 (Some noSchema) = []
   \<and> nonEmpty (schemaSummarySwagger2 (Some noSchema)) ''-'' = ''-''
   \<and> schemaNote2 (Some noSchema) = []
   \<and> propLine2 plainStd untypedHolder (''tag'', noSchema) = ''- `tag` (-)''
   \<and> Text ''- `tag` (-)\<newline>'' \<in> set (schemaBlock2 plainStd (''Pet'', untypedHolder))
   \<and> hd (statusBlock2 plainStd (200, untypedResponse)) = Text (''- 200 '' @ emdash @ '' ok\<newline>'')
   \<and> Text (''- 200 '' @ emdash @ '' ok\<newline>'') \<in> set (responses2 plainStd untypedGet)
   \<and> typeOfSchemaRef (Some (SchemaRef [] (Some noSchema3))) = ''object''"
proof -
  note t = summary_fallback [where s = noSchema and r = "SchemaRef [] (Some noSchema3)" and v = noSchema3
      and L = plainStd and sch = untypedHolder and pn = "''tag''" and name = "''Pet''"
      and resp = untypedResponse and code = 200 and op = untypedGet and ref = "[]"
      and rs = "\<lparr>responses_StatusCodeResponses = [(200, untypedResponse)], responses_Default = None\<rparr>"]
  have h: "schema_Ref noSchema = [] \<and> schema_Type noSchema = []"
    "map_of (schema_Properties untypedHolder) ''tag'' = Some noSchema"
    "resp_Schema untypedResponse = Some noSchema"
    "op_Responses untypedGet
       = Some \<lparr>responses_StatusCodeResponses = [(200, untypedResponse)], responses_Default = None\<rparr>"
    "sref_Ref (SchemaRef [] (Some noSchema3)) = [] \<and> sref_Value (SchemaRef [] (Some noSchema3)) = Some noSchema3
     \<and> schema3_Type noSchema3 = None"
    by (simp_all add: noSchema_def untypedHolder_def untypedResponse_def untypedGet_def noSchema3_def)
  have e: "contains (schema_Required untypedHolder) ''tag'' = False"
    "TrimSpace plainStd (schema_Description noSchema) = []"
    "defaultAsString plainStd (schema_Default noSchema) = []"
    "enumAsString plainStd (schema_Enum noSchema) = []"
    "responseDesc plainStd (resp_Description untypedResponse) = ''ok''"
    by (simp_all add: untypedHolder_def noSchema_def plainStd_def defaultAsString_def enumAsString_def
          responseDesc_def untypedResponse_def)
  have i: "Itoa 200 = ''200''"
    by code_simp
  from t h e i show ?thesis by (clarsimp simp: nonEmpty_def)
qed

text \<open>C6 as it is written fails for dialect A: the summary of an empty schema is not \<open>-\<close>.\<close>

theorem summary_of_empty_schema:
  "schemaSummarySwagger2 (Some noSchema) = [] \<and> schemaSummarySwagger2 (Some noSchema) \<noteq> ''-''"
  by (simp add: noSchema_def schemaSummarySwagger2_def)

section \<open>Request examples of a Swagger 2.0 operation\<close>

lemma req_Text: "\<not> isRequestExample (Text s)"
  by (simp add: isRequestExample_def)

lemma req_parameters2: "filter isRequestExample (parameters2 L op) = []"
  by (simp add: parameters2_def filter_map_empty req_Text)

lemma req_mediaTypes2: "filter isRequestExample (mediaTypes2 t mts) = []"
  by (simp add: mediaTypes2_def filter_map_empty req_Text)

lemma req_statusBlock2: "filter isRequestExample (statusBlock2 L cr) = []"
  by (simp add: statusBlock2_def Let_def filter_map_empty isRequestExample_def HasPrefix_def)

lemma req_responses2: "filter isRequestExample (responses2 L op) = []"
  by (simp add: responses2_def filter_concat_map_empty req_statusBlock2 req_Text split: option.splits)

lemma req_requestExample2: "filter isRequestExample (requestExample2 op cs) = requestExample2 op cs"
  by (rule filter_all)
     (auto simp: requestExample2_def Let_def isRequestExample_def HasPrefix_def split: option.splits if_splits)

lemma bodyExample_carries:
  "bodyExample bs \<noteq> ANil \<longleftrightarrow>
     schema_Example bs \<noteq> ANil
     \<or> (\<exists>it. schema_Items bs = Some (Some it) \<and> schema_Example it \<noteq> ANil)
     \<or> (\<exists>v. map_of (schema_Extensions bs) ''x-example'' = Some v \<and> v \<noteq> ANil)"
  by (auto simp: bodyExample_def Let_def split: option.splits)

text \<open>
  C10. Let \<open>prm\<close> be the body parameter of the operation (the first parameter located in
  \<open>body\<close> that has a schema, which is the one the renderer takes), and let its schema, the
  item schema of that, or the vendor extension \<^verbatim>\<open>x-example\<close> carry an example. Then the
  request-example writes of the operation section are: one per media type of the effective
  consumes list (the list of the operation, or the list of the document when that is empty),
  in list order, labelled \<open>Request example (<media-type>)\<close>; and exactly one, with the bare
  label \<open>Request example\<close>, when the effective list is empty.
\<close>

theorem request_examples_per_media_type:
  assumes "List.find (\<lambda>prm. param_In prm = ''body'' \<and> param_Schema prm \<noteq> None) (op_Parameters op) = Some prm"
    and "param_Schema prm = Some bs"
    and "schema_Example bs \<noteq> ANil
         \<or> (\<exists>it. schema_Items bs = Some (Some it) \<and> schema_Example it \<noteq> ANil)
         \<or> (\<exists>v. map_of (schema_Extensions bs) ''x-example'' = Some v \<and> v \<noteq> ANil)"
    and "consumes = (if op_Consumes op = [] then globalConsumes else op_Consumes op)"
  shows "filter isRequestExample (writeSwagger2Operation L method path op globalProduces globalConsumes)
         = (if consumes = [] then [Fence ''Request example'' [] (bodyExample bs)]
            else map (\<lambda>mt. Fence (''Request example ('' @ mt @ '')'') mt (bodyExample bs)) consumes)"
proof -
  have ex: "bodyExample bs \<noteq> ANil" using assms(3) by (simp add: bodyExample_carries)
  have b: "bodySchemaOf (op_Parameters op) = Some bs"
    using assms(1,2) by (simp add: bodySchemaOf_def)
  have r: "requestExample2 op consumes
           = (if consumes = [] then [Fence ''Request example'' [] (bodyExample bs)]
              else map (\<lambda>mt. Fence (''Request example ('' @ mt @ '')'') mt (bodyExample bs)) consumes)"
    using ex b by (simp add: requestExample2_def Let_def)
  have "filter isRequestExample (writeSwagger2Operation L method path op globalProduces globalConsumes)
        = requestExample2 op consumes"
    using assms(4)
    by (simp add: writeSwagger2Operation_def Let_def req_parameters2 req_mediaTypes2 req_responses2
          req_requestExample2 req_Text)
  then show ?thesis using r by simp
qed

theorem request_examples_witness:
  "filter isRequestExample (writeSwagger2Operation plainStd ''POST'' ''/pets'' postPet [] [])
     = [Fence ''Request example (application/json)'' ''application/json'' (AStr ''rex''),
        Fence ''Request example (application/xml)'' ''application/xml'' (AStr ''rex'')]
   \<and> filter isRequestExample
        (writeSwagger2Operation plainStd ''POST'' ''/pets'' (postPet\<lparr>op_Consumes := []\<rparr>) [] [])
     = [Fence ''Request example'' [] (AStr ''rex'')]"
proof -
  have f: "List.find (\<lambda>prm. param_In prm = ''body'' \<and> param_Schema prm \<noteq> None) (op_Parameters postPet)
           = Some bodyParam"
    by (simp add: postPet_def bodyParam_def)
  have f': "List.find (\<lambda>prm. param_In prm = ''body'' \<and> param_Schema prm \<noteq> None)
              (op_Parameters (postPet\<lparr>op_Consumes := []\<rparr>)) = Some bodyParam"
    by (simp add: postPet_def bodyParam_def)
  have s: "param_Schema bodyParam = Some exampleSchemaA"
    by (simp add: bodyParam_def)
  have e: "schema_Example exampleSchemaA \<noteq> ANil
           \<or> (\<exists>it. schema_Items exampleSchemaA = Some (Some it) \<and> schema_Example it \<noteq> ANil)
           \<or> (\<exists>v. map_of (schema_Extensions exampleSchemaA) ''x-example'' = Some v \<and> v \<noteq> ANil)"
    by (simp add: exampleSchemaA_def)
  have c: "[''application/json'', ''application/xml'']
           = (if op_Consumes postPet = [] then [] else op_Consumes postPet)"
    by (simp add: postPet_def)
  have c': "[] = (if op_Consumes (postPet\<lparr>op_Consumes := []\<rparr>) = [] then []
                  else op_Consumes (postPet\<lparr>op_Consumes := []\<rparr>))"
    by simp
  have b: "bodyExample exampleSchemaA = AStr ''rex''"
    by (simp add: bodyExample_def exampleSchemaA_def)
  show ?thesis
    using request_examples_per_media_type [OF f s e c, of plainStd "''POST''" "''/pets''" "[]"]
      request_examples_per_media_type [OF f' s e c', of plainStd "''POST''" "''/pets''" "[]"]
    by (simp add: b)
qed

section \<open>Labels of the response examples of an OpenAPI 3 operation\<close>

lemma responseMedia3_anonymous:
  "media_Example media \<noteq> ANil \<Longrightarrow>
   Fence (''Response example ('' @ code @ '', '' @ mt @ '')'') mt (media_Example media)
     \<in> set (responseMedia3 code (mt, media))"
  by (simp add: responseMedia3_def Let_def)

lemma responseMedia3_named:
  assumes "map_of (media_Examples media) name = Some (Some exRef)"
    and "Value exRef = Some ex" and "example_Value ex \<noteq> ANil"
  shows "Fence (''Response example ('' @ name @ '', '' @ code @ '', '' @ mt @ '')'') mt (example_Value ex)
           \<in> set (responseMedia3 code (mt, media))"
proof -
  have m: "(name, Some exRef) \<in> set (sortedEntries (media_Examples media))"
    using assms(1) by (rule sortedEntries_mem)
  then have ne: "media_Examples media \<noteq> []"
    by (auto simp: sortedEntries_def)
  show ?thesis
    using m ne assms(2,3)
    by (force simp: responseMedia3_def Let_def)
qed

lemma responses3_media:
  assumes "o3_Responses op = Some respMap"
    and "map_of respMap code = Some (Some r)" and "Value r = Some resp"
    and "map_of (r3_Content resp) mt = Some media"
  shows "set (responseMedia3 code (mt, media)) \<subseteq> set (writeOpenAPI3Operation L method path pi op)"
proof -
  have c: "(code, Some r) \<in> set (sortedEntries respMap)"
    using assms(2) by (rule sortedEntries_mem)
  then have ne: "respMap \<noteq> []" by (auto simp: sortedEntries_def)
  have m: "(mt, media) \<in> set (sortedEntries (r3_Content resp))"
    using assms(4) by (rule sortedEntries_mem)
  then have ne': "r3_Content resp \<noteq> []" by (auto simp: sortedEntries_def)
  have "set (responseMedia3 code (mt, media)) \<subseteq> set (statusBlock3 L (code, Some r))"
    using m ne' assms(3) by (force simp: statusBlock3_def Let_def)
  also have "\<dots> \<subseteq> set (responses3 L op)"
    using c ne assms(1) by (force simp: responses3_def)
  also have "\<dots> \<subseteq> set (writeOpenAPI3Operation L method path pi op)"
    by (auto simp: writeOpenAPI3Operation_def)
  finally show ?thesis .
qed

lemma sortedEntries_sub: "(k, v) \<in> set (sortedEntries m) \<Longrightarrow> (k, v) \<in> set m"
  by (auto simp: sortedEntries_def split: option.splits intro: map_of_SomeD)

lemma responseMedia3_fences:
  assumes "Fence l m v \<in> set (responseMedia3 code (mt, media))"
  shows "m = mt
         \<and> (l = ''Response example ('' @ code @ '', '' @ mt @ '')''
            \<or> (\<exists>name \<in> fst ` set (media_Examples media).
                  l = ''Response example ('' @ name @ '', '' @ code @ '', '' @ mt @ '')''))"
  using assms
  by (auto simp: responseMedia3_def Let_def split: if_splits option.splits
        dest!: sortedEntries_sub intro: rev_image_eqI)

text \<open>
  C7. Let the operation have, under the status \<open>code\<close>, a response whose content has the
  media type \<open>mt\<close>. An anonymous example of that media type is written with the label
  \<open>Response example (<status>, <media-type>)\<close>, and every example named \<open>name\<close> that has a
  value is written with the label \<open>Response example (<name>, <status>, <media-type>)\<close>.
  The examples written for that media type carry no label of any other form.
\<close>

theorem response_example_labels:
  assumes "o3_Responses op = Some respMap"
    and "map_of respMap code = Some (Some r)" and "Value r = Some resp"
    and "map_of (r3_Content resp) mt = Some media"
  shows "(media_Example media \<noteq> ANil \<longrightarrow>
           Fence (''Response example ('' @ code @ '', '' @ mt @ '')'') mt (media_Example media)
             \<in> set (writeOpenAPI3Operation L method path pi op))
         \<and> (\<forall>name exRef ex.
              map_of (media_Examples media) name = Some (Some exRef) \<and> Value exRef = Some ex
              \<and> example_Value ex \<noteq> ANil \<longrightarrow>
              Fence (''Response example ('' @ name @ '', '' @ code @ '', '' @ mt @ '')'') mt (example_Value ex)
                \<in> set (writeOpenAPI3Operation L method path pi op))
         \<and> (\<forall>l m v. Fence l m v \<in> set (responseMedia3 code (mt, media)) \<longrightarrow>
              m = mt
              \<and> (l = ''Response example ('' @ code @ '', '' @ mt @ '')''
                 \<or> (\<exists>name \<in> fst ` set (media_Examples media).
                       l = ''Response example ('' @ name @ '', '' @ code @ '', '' @ mt @ '')'')))"
  using responses3_media [OF assms, of L _ _ pi] responseMedia3_anonymous [of media code mt]
    responseMedia3_named [of media _ _ _ code mt] responseMedia3_fences [of _ _ _ code mt media]
  by blast

theorem response_example_labels_witness:
  "Fence ''Response example (200, application/json)'' ''application/json'' (AStr ''first'')
     \<in> set (writeOpenAPI3Operation plainStd ''GET'' ''/pets'' emptyItem3 getPets3)
   \<and> Fence ''Response example (alt, 200, application/json)'' ''application/json'' (AStr ''second'')
     \<in> set (writeOpenAPI3Operation plainStd ''GET'' ''/pets'' emptyItem3 getPets3)"
proof -
  have a: "o3_Responses getPets3 = Some [(''200'', Some (ValueRef (Some okResponse3)))]"
    by (simp add: getPets3_def)
  have b: "map_of [(''200'', Some (ValueRef (Some okResponse3)))] ''200'' = Some (Some (ValueRef (Some okResponse3)))"
    by simp
  have c: "Value (ValueRef (Some okResponse3)) = Some okResponse3"
    by simp
  have d: "map_of (r3_Content okResponse3) ''application/json'' = Some altMedia"
    by (simp add: okResponse3_def)
  note t = response_example_labels [OF a b c d, of plainStd "''GET''" "''/pets''" emptyItem3]
  have e: "media_Example altMedia = AStr ''first''"
    by (simp add: altMedia_def)
  have n: "map_of (media_Examples altMedia) ''alt'' = Some (Some (ValueRef (Some altExample)))
           \<and> Value (ValueRef (Some altExample)) = Some altExample \<and> example_Value altExample \<noteq> ANil"
    by (simp add: altMedia_def altExample_def)
  have v: "example_Value altExample = AStr ''second''"
    by (simp add: altExample_def)
  from t e have 1: "Fence ''Response example (200, application/json)'' ''application/json'' (AStr ''first'')
     \<in> set (writeOpenAPI3Operation plainStd ''GET'' ''/pets'' emptyItem3 getPets3)"
    by simp
  from t [THEN conjunct2, THEN conjunct1, rule_format, OF n] v
  have 2: "Fence ''Response example (alt, 200, application/json)'' ''application/json'' (AStr ''second'')
     \<in> set (writeOpenAPI3Operation plainStd ''GET'' ''/pets'' emptyItem3 getPets3)"
    by simp
  from 1 2 show ?thesis by simp
qed

section \<open>The adapter boundary and the dispatcher\<close>

text \<open>
  C8. Each renderer returns either the whole buffer and no error, or the empty string and
  an error. In particular a panic raised while walking a document that was parsed becomes an
  error, with the empty string.
\<close>

theorem text_or_error:
  "((\<exists>s b. unmarshalSwagger L data = Inr s \<and> swagger2Walk L s = Inr b
            \<and> swagger2ToMarkdown L data = (flatten (writeExampleFence L) b, None))
     \<or> (\<exists>e. swagger2ToMarkdown L data = ([], Some e)))
   \<and> ((\<exists>doc b. LoadFromData L data = (Some doc, None) \<and> openAPI3Walk L doc = Inr b
            \<and> openAPI3ToMarkdown L data opts = (flatten (writeExampleFence L) b, None))
     \<or> (\<exists>e. openAPI3ToMarkdown L data opts = ([], Some e)))
   \<and> (\<forall>s r. unmarshalSwagger L data = Inr s \<and> swagger2Walk L s = Inl r
          \<longrightarrow> swagger2ToMarkdown L data = ([], Some (Swagger2Panic r)))
   \<and> (\<forall>doc r. LoadFromData L data = (Some doc, None) \<and> openAPI3Walk L doc = Inl r
          \<longrightarrow> openAPI3ToMarkdown L data opts = ([], Some (OpenAPI3Panic r)))"
proof -
  have a: "(\<exists>s b. unmarshalSwagger L data = Inr s \<and> swagger2Walk L s = Inr b
            \<and> swagger2ToMarkdown L data = (flatten (writeExampleFence L) b, None))
     \<or> (\<exists>e. swagger2ToMarkdown L data = ([], Some e))"
    by (auto simp: swagger2ToMarkdown_def swagger2Body_def split: sum.splits)
  have b: "(\<exists>doc b. LoadFromData L data = (Some doc, None) \<and> openAPI3Walk L doc = Inr b
            \<and> openAPI3ToMarkdown L data opts = (flatten (writeExampleFence L) b, None))
     \<or> (\<exists>e. openAPI3ToMarkdown L data opts = ([], Some e))"
    by (auto simp: openAPI3ToMarkdown_def openAPI3Body_def split: sum.splits prod.splits option.splits)
  have c: "\<forall>s r. unmarshalSwagger L data = Inr s \<and> swagger2Walk L s = Inl r
          \<longrightarrow> swagger2ToMarkdown L data = ([], Some (Swagger2Panic r))"
    by (simp add: swagger2ToMarkdown_def swagger2Body_def)
  have d: "\<forall>doc r. LoadFromData L data = (Some doc, None) \<and> openAPI3Walk L doc = Inl r
          \<longrightarrow> openAPI3ToMarkdown L data opts = ([], Some (OpenAPI3Panic r))"
    by (simp add: openAPI3ToMarkdown_def openAPI3Body_def)
  from a b c d show ?thesis by blast
qed

lemma emptySwagger_walk: "swagger2Walk L emptySwagger = Inl NilDeref"
  by (simp add: swagger2Walk_def authentication2_def emptySwagger_def)

lemma emptyT_walk: "openAPI3Walk L emptyT = Inl NilDeref"
  by (simp add: openAPI3Walk_def emptyT_def)

theorem text_or_error_witness:
  "swagger2ToMarkdown (decoded emptySwagger (Some emptyT, None)) ''{}'' = ([], Some (Swagger2Panic NilDeref))
   \<and> openAPI3ToMarkdown (decoded emptySwagger (Some emptyT, None)) ''{}'' jsonOpts
       = ([], Some (OpenAPI3Panic NilDeref))"
proof -
  note t = text_or_error [of "decoded emptySwagger (Some emptyT, None)" "''{}''" jsonOpts]
  have a: "unmarshalSwagger (decoded emptySwagger (Some emptyT, None)) ''{}'' = Inr emptySwagger
           \<and> swagger2Walk (decoded emptySwagger (Some emptyT, None)) emptySwagger = Inl NilDeref"
    by (simp add: decoded_def emptySwagger_walk)
  have b: "LoadFromData (decoded emptySwagger (Some emptyT, None)) ''{}'' = (Some emptyT, None)
           \<and> openAPI3Walk (decoded emptySwagger (Some emptyT, None)) emptyT = Inl NilDeref"
    by (simp add: decoded_def emptyT_walk)
  from t [THEN conjunct2, THEN conjunct2, THEN conjunct1, rule_format, OF a]
    t [THEN conjunct2, THEN conjunct2, THEN conjunct2, rule_format, OF b]
  show ?thesis by simp
qed

text \<open>
  C2, as amended. When the input is normalized and probed, the dispatcher renders it as
  dialect A if the marker \<open>swagger\<close> starts with \<open>2.0\<close>, else as dialect B if the marker
  \<open>openapi\<close> starts with \<open>3.\<close>; else it returns the rendering of dialect A if that returns
  no error, else the rendering of dialect B if that returns no error, else an error that
  names both markers. In particular, for a document with neither marker that dialect A
  renders without error, the result is the rendering of dialect A.
\<close>

theorem dispatch_order:
  assumes "normalizeToJSON L data (opt_Format opts) = Inr jsonData"
    and "unmarshalProbe L jsonData = Inr vp"
  shows "ToMarkdown L data opts =
           (if HasPrefix (vp_Swagger vp) ''2.0'' then swagger2ToMarkdown L jsonData
            else if HasPrefix (vp_OpenAPI vp) ''3.'' then openAPI3ToMarkdown L jsonData opts
            else if snd (swagger2ToMarkdown L jsonData) = None then swagger2ToMarkdown L jsonData
            else if snd (openAPI3ToMarkdown L jsonData opts) = None then openAPI3ToMarkdown L jsonData opts
            else ([], Some (CouldNotDetect (vp_Swagger vp) (vp_OpenAPI vp))))
         \<and> (vp_Swagger vp = [] \<and> vp_OpenAPI vp = [] \<and> snd (swagger2ToMarkdown L jsonData) = None
              \<longrightarrow> ToMarkdown L data opts = swagger2ToMarkdown L jsonData)"
proof -
  have p: "\<And>x :: string \<times> error option. snd x = None \<Longrightarrow> (fst x, None) = x"
    by (metis prod.collapse)
  show ?thesis
    using assms by (auto simp: ToMarkdown_def HasPrefix_def p)
qed

lemma noPathSwagger_walk:
  "swagger2Walk L noPathSwagger =
     Inr [Text ''# -\<newline>\<newline>'', Text ''## Overview\<newline>'', Text ''- Version: -\<newline>'',
          Text ''\<newline>## Authentication\<newline>'', Text ''- None defined\<newline>'',
          Text ''\<newline>## Servers\<newline>'', Text ''- None defined\<newline>'',
          Text ''\<newline>## Tags\<newline>'', Text ''- None defined\<newline>'',
          Text ''\<newline>## Endpoints by Tag\<newline>'',
          Text ''\<newline>## Examples\<newline>'']"
  by (simp add: swagger2Walk_def authentication2_def noPathSwagger_def emptySwagger_def overview2_def
        contactLicense_def servers2_def hostURL_def tagsSection_def endpoints2_def printBuckets_def
        collectOps_def allRefs2_def sortedEntries_def schemas2_def examples2_def)

theorem dispatch_order_witness:
  "ToMarkdown (decoded noPathSwagger (Some emptyT, None)) ''input'' jsonOpts
     = swagger2ToMarkdown (decoded noPathSwagger (Some emptyT, None)) ''input''
   \<and> snd (swagger2ToMarkdown (decoded noPathSwagger (Some emptyT, None)) ''input'') = None"
proof -
  let ?L = "decoded noPathSwagger (Some emptyT, None)"
  have n: "normalizeToJSON ?L ''input'' (opt_Format jsonOpts) = Inr ''input''"
    by (simp add: normalizeToJSON_def jsonOpts_def)
  have p: "unmarshalProbe ?L ''input'' = Inr \<lparr>vp_Swagger = [], vp_OpenAPI = []\<rparr>"
    by (simp add: decoded_def)
  have u: "unmarshalSwagger ?L ''input'' = Inr noPathSwagger"
    by (simp add: decoded_def)
  have s: "snd (swagger2ToMarkdown ?L ''input'') = None"
    by (simp add: swagger2ToMarkdown_def swagger2Body_def u noPathSwagger_walk)
  from dispatch_order [OF n p, THEN conjunct2] s show ?thesis by simp
qed

text \<open>
  C2 as it is written fails at the input \<^verbatim>\<open>{}\<close>: the parser of dialect A accepts it,
  the walk panics on the nil \<^verbatim>\<open>s.Paths\<close>, and the dispatcher goes on to dialect B
  instead of returning the result of dialect A.
\<close>

theorem dispatch_after_panic:
  "unmarshalProbe (decoded emptySwagger (Some emptyT, None)) ''{}'' = Inr \<lparr>vp_Swagger = [], vp_OpenAPI = []\<rparr>
   \<and> unmarshalSwagger (decoded emptySwagger (Some emptyT, None)) ''{}'' = Inr emptySwagger
   \<and> swagger2ToMarkdown (decoded emptySwagger (Some emptyT, None)) ''{}'' = ([], Some (Swagger2Panic NilDeref))
   \<and> ToMarkdown (decoded emptySwagger (Some emptyT, None)) ''{}'' jsonOpts = ([], Some (CouldNotDetect [] []))
   \<and> ToMarkdown (decoded emptySwagger (Some emptyT, None)) ''{}'' jsonOpts
       \<noteq> swagger2ToMarkdown (decoded emptySwagger (Some emptyT, None)) ''{}''"
proof -
  let ?L = "decoded emptySwagger (Some emptyT, None)"
  have u: "unmarshalSwagger ?L ''{}'' = Inr emptySwagger" "LoadFromData ?L ''{}'' = (Some emptyT, None)"
    "unmarshalProbe ?L ''{}'' = Inr \<lparr>vp_Swagger = [], vp_OpenAPI = []\<rparr>"
    by (simp_all add: decoded_def)
  have a: "swagger2ToMarkdown ?L ''{}'' = ([], Some (Swagger2Panic NilDeref))"
    by (simp add: swagger2ToMarkdown_def swagger2Body_def u emptySwagger_walk)
  have b: "openAPI3ToMarkdown ?L ''{}'' jsonOpts = ([], Some (OpenAPI3Panic NilDeref))"
    by (simp add: openAPI3ToMarkdown_def openAPI3Body_def u emptyT_walk)
  have n: "normalizeToJSON ?L ''{}'' (opt_Format jsonOpts) = Inr ''{}''"
    by (simp add: normalizeToJSON_def jsonOpts_def)
  have t: "ToMarkdown ?L ''{}'' jsonOpts = ([], Some (CouldNotDetect [] []))"
    by (simp add: ToMarkdown_def n u a b HasPrefix_def)
  from u a t show ?thesis by simp
qed

section \<open>The parameter list of an OpenAPI 3 operation\<close>

lemma paramEntries3: "concat (map (paramEntry3 L) prs) = map (\<lambda>par. Text (paramLine3 L par @ ''\<newline>'')) (presentParams prs)"
  by (induction prs) (auto simp: presentParams_def paramEntry3_def split: option.splits)

lemma presentParams_append: "presentParams (xs @ ys) = presentParams xs @ presentParams ys"
  by (simp add: presentParams_def)

text \<open>
  C4, as amended. The parameter list of an operation of dialect B is the list of the
  parameters of the path followed by the parameters of the operation, one line for each
  entry that is present, in order. Nothing is removed: a parameter that is declared at both levels
  with the same name and location is listed twice.
\<close>

theorem parameters_concatenated:
  "parameters3 L pi op =
     (if pi3_Parameters pi @ o3_Parameters op = [] then []
      else Text ''**Parameters**\<newline>''
           # map (\<lambda>par. Text (paramLine3 L par @ ''\<newline>''))
                 (presentParams (pi3_Parameters pi) @ presentParams (o3_Parameters op)))"
  by (simp add: parameters3_def Let_def paramEntries3 presentParams_append)

text \<open>
  C4 as it is written fails where the path item and the operation both declare \<open>id\<close> in
  \<open>path\<close>: both lines are printed, the one of the path first.
\<close>

theorem parameter_listed_twice:
  "writeOpenAPI3Operation plainStd ''GET'' ''/pets/{id}'' idItem3 idOp3 =
     [Text ''\<newline>#### GET /pets/{id}\<newline>'',
      Text ''**Parameters**\<newline>'',
      Text (''- path `id` (-) (required) '' @ emdash @ '' of the path\<newline>''),
      Text (''- path `id` (-) (required) '' @ emdash @ '' of the operation\<newline>'')]"
  by (simp add: writeOpenAPI3Operation_def requestBody3_def responses3_def
        parameters3_def idItem3_def idOp3_def emptyItem3_def idParam_def paramEntry3_def
        paramLine3_def schemaType3_def plainStd_def Let_def)

section \<open>The order of the security definitions of Swagger 2.0\<close>

lemma keyFirst_walk:
  "swagger2Walk L keyFirst =
     Inr [Text ''# -\<newline>\<newline>'', Text ''## Overview\<newline>'', Text ''- Version: -\<newline>'',
          Text ''\<newline>## Authentication\<newline>'',
          Text (''- key '' @ emdash @ '' type=apiKey, name=X-Key, in=header\<newline>''),
          Text (''- login '' @ emdash @ '' type=basic\<newline>''),
          Text ''\<newline>## Servers\<newline>'', Text ''- None defined\<newline>'',
          Text ''\<newline>## Tags\<newline>'', Text ''- None defined\<newline>'',
          Text ''\<newline>## Endpoints by Tag\<newline>'',
          Text ''\<newline>## Examples\<newline>'']"
  by (simp add: swagger2Walk_def authentication2_def keyFirst_def noPathSwagger_def emptySwagger_def
        keyScheme_def loginScheme_def secLine2_def overview2_def
        contactLicense_def servers2_def hostURL_def tagsSection_def endpoints2_def printBuckets_def
        collectOps_def allRefs2_def sortedEntries_def schemas2_def examples2_def)

lemma loginFirst_walk:
  "swagger2Walk L loginFirst =
     Inr [Text ''# -\<newline>\<newline>'', Text ''## Overview\<newline>'', Text ''- Version: -\<newline>'',
          Text ''\<newline>## Authentication\<newline>'',
          Text (''- login '' @ emdash @ '' type=basic\<newline>''),
          Text (''- key '' @ emdash @ '' type=apiKey, name=X-Key, in=header\<newline>''),
          Text ''\<newline>## Servers\<newline>'', Text ''- None defined\<newline>'',
          Text ''\<newline>## Tags\<newline>'', Text ''- None defined\<newline>'',
          Text ''\<newline>## Endpoints by Tag\<newline>'',
          Text ''\<newline>## Examples\<newline>'']"
  by (simp add: swagger2Walk_def authentication2_def loginFirst_def keyFirst_def noPathSwagger_def
        emptySwagger_def keyScheme_def loginScheme_def secLine2_def overview2_def
        contactLicense_def servers2_def hostURL_def tagsSection_def endpoints2_def printBuckets_def
        collectOps_def allRefs2_def sortedEntries_def schemas2_def examples2_def)

text \<open>
  C1 fails on the code. The Swagger 2.0 adapter prints the security definitions in the
  order of \<^verbatim>\<open>range\<close> over the map, without sorting the names. Two runs on the same
  document, the same map visited in two orders, return different texts.
\<close>

theorem security_definitions_in_range_order:
  "set (swagger_SecurityDefinitions keyFirst) = set (swagger_SecurityDefinitions loginFirst)
   \<and> distinct (map fst (swagger_SecurityDefinitions keyFirst))
   \<and> distinct (map fst (swagger_SecurityDefinitions loginFirst))
   \<and> snd (swagger2ToMarkdown (decoded keyFirst (None, None)) ''input'') = None
   \<and> snd (swagger2ToMarkdown (decoded loginFirst (None, None)) ''input'') = None
   \<and> fst (swagger2ToMarkdown (decoded keyFirst (None, None)) ''input'')
       \<noteq> fst (swagger2ToMarkdown (decoded loginFirst (None, None)) ''input'')"
proof -
  have s: "set (swagger_SecurityDefinitions keyFirst) = set (swagger_SecurityDefinitions loginFirst)"
    "distinct (map fst (swagger_SecurityDefinitions keyFirst))"
    "distinct (map fst (swagger_SecurityDefinitions loginFirst))"
    by (auto simp: loginFirst_def keyFirst_def)
  have u: "unmarshalSwagger (decoded keyFirst (None, None)) ''input'' = Inr keyFirst"
    "unmarshalSwagger (decoded loginFirst (None, None)) ''input'' = Inr loginFirst"
    by (simp_all add: decoded_def)
  have a: "swagger2ToMarkdown (decoded keyFirst (None, None)) ''input''
           = (flatten (writeExampleFence (decoded keyFirst (None, None)))
                (projr (swagger2Walk (decoded keyFirst (None, None)) keyFirst)), None)"
    by (simp add: swagger2ToMarkdown_def swagger2Body_def u keyFirst_walk)
  have b: "swagger2ToMarkdown (decoded loginFirst (None, None)) ''input''
           = (flatten (writeExampleFence (decoded loginFirst (None, None)))
                (projr (swagger2Walk (decoded loginFirst (None, None)) loginFirst)), None)"
    by (simp add: swagger2ToMarkdown_def swagger2Body_def u loginFirst_walk)
  have d: "fst (swagger2ToMarkdown (decoded keyFirst (None, None)) ''input'')
       \<noteq> fst (swagger2ToMarkdown (decoded loginFirst (None, None)) ''input'')"
    by (simp add: a b keyFirst_walk loginFirst_walk)
  from s a b d show ?thesis by simp
qed

section \<open>The section headings\<close>





















































































section \<open>Operations under their tags\<close>

lemma count_list_distinct: "distinct xs \<Longrightarrow> x \<in> set xs \<Longrightarrow> count_list xs x = 1"
  by (induction xs) auto

lemma count_list_replicate: "count_list (replicate n y) x = (if x = y then n else 0)"
  by (induction n) auto

lemma count_list_replicates:
  "count_list (concat (map (\<lambda>r. replicate (n r) r) refs)) x = count_list refs x * n x"
  by (induction refs) (auto simp: count_list_replicate)

lemma count_list_filter: "count_list (filter P refs) x = (if P x then count_list refs x else 0)"
  by (induction refs) auto

lemma bucketOf_update: "bucketOf (AList.update k v al) t = (if t = k then v else bucketOf al t)"
  by (simp add: bucketOf_def update_conv')

lemma bucketOf_appendTo: "bucketOf (appendTo ref tagged k) t = bucketOf tagged t @ (if t = k then [ref] else [])"
  by (simp add: appendTo_def bucketOf_update)

lemma bucketOf_foldl_appendTo:
  "bucketOf (foldl (appendTo ref) tagged tags) t = bucketOf tagged t @ replicate (count_list tags t) ref"
proof (induction tags arbitrary: tagged)
  case Nil
  then show ?case by simp
next
  case (Cons k tags)
  then show ?case by (simp add: bucketOf_appendTo replicate_app_Cons_same)
qed

lemma keys_appendTo: "fst ` set (appendTo ref tagged k) = insert k (fst ` set tagged)"
  by (simp add: appendTo_def dom_update)

lemma keys_foldl_appendTo:
  "fst ` set (foldl (appendTo ref) tagged tags) = set tags \<union> fst ` set tagged"
proof (induction tags arbitrary: tagged)
  case Nil
  then show ?case by simp
next
  case (Cons k tags)
  show ?case unfolding foldl_Cons Cons.IH keys_appendTo by auto
qed

lemma distinct_foldl_appendTo:
  "distinct (map fst tagged) \<Longrightarrow> distinct (map fst (foldl (appendTo ref) tagged tags))"
  by (induction tags arbitrary: tagged) (simp_all add: appendTo_def distinct_update)

lemma bucketOf_addRef:
  "bucketOf (fst (addRef tagsOf acc ref)) t = bucketOf (fst acc) t @ replicate (count_list (tagsOf ref) t) ref"
  by (simp add: addRef_def bucketOf_foldl_appendTo)

lemma untagged_addRef:
  "snd (addRef tagsOf acc ref) = snd acc @ (if tagsOf ref = [] then [ref] else [])"
  by (simp add: addRef_def)

lemma keys_addRef:
  "fst ` set (fst (addRef tagsOf acc ref)) = set (tagsOf ref) \<union> fst ` set (fst acc)"
  by (simp add: addRef_def keys_foldl_appendTo)

lemma distinct_addRef:
  "distinct (map fst (fst acc)) \<Longrightarrow> distinct (map fst (fst (addRef tagsOf acc ref)))"
  by (simp add: addRef_def distinct_foldl_appendTo)

lemma bucketOf_foldl_addRef:
  "bucketOf (fst (foldl (addRef tagsOf) acc refs)) t
     = bucketOf (fst acc) t @ concat (map (\<lambda>r. replicate (count_list (tagsOf r) t) r) refs)"
  by (induction refs arbitrary: acc) (simp_all add: bucketOf_addRef)

lemma untagged_foldl_addRef:
  "snd (foldl (addRef tagsOf) acc refs) = snd acc @ filter (\<lambda>r. tagsOf r = []) refs"
  by (induction refs arbitrary: acc) (simp_all add: untagged_addRef)

lemma keys_foldl_addRef:
  "fst ` set (fst (foldl (addRef tagsOf) acc refs)) = (\<Union>r \<in> set refs. set (tagsOf r)) \<union> fst ` set (fst acc)"
proof (induction refs arbitrary: acc)
  case Nil
  then show ?case by simp
next
  case (Cons r refs)
  show ?case unfolding foldl_Cons Cons.IH keys_addRef by auto
qed

lemma distinct_foldl_addRef:
  "distinct (map fst (fst acc)) \<Longrightarrow> distinct (map fst (fst (foldl (addRef tagsOf) acc refs)))"
  by (induction refs arbitrary: acc) (simp_all add: distinct_addRef)

lemma collectOps_bucket:
  "bucketOf (fst (collectOps tagsOf refs)) t = concat (map (\<lambda>r. replicate (count_list (tagsOf r) t) r) refs)"
  by (simp add: collectOps_def bucketOf_foldl_addRef) (simp add: bucketOf_def)

lemma collectOps_untagged: "snd (collectOps tagsOf refs) = filter (\<lambda>r. tagsOf r = []) refs"
  by (simp add: collectOps_def untagged_foldl_addRef)

lemma collectOps_keys: "fst ` set (fst (collectOps tagsOf refs)) = (\<Union>r \<in> set refs. set (tagsOf r))"
  by (simp add: collectOps_def keys_foldl_addRef)

lemma collectOps_distinct: "distinct (map fst (fst (collectOps tagsOf refs)))"
  by (simp add: collectOps_def distinct_foldl_addRef)

lemma sortedEntries_keys_aux:
  "\<forall>k \<in> set ks. map_of m k \<noteq> None \<Longrightarrow>
   map fst (concat (map (\<lambda>k. case map_of m k of None \<Rightarrow> [] | Some v \<Rightarrow> [(k, v)]) ks)) = ks"
  by (induction ks) auto

lemma sortedEntries_keys: "map fst (sortedEntries m) = sort (map fst m)"
  unfolding sortedEntries_def
  by (rule sortedEntries_keys_aux) (auto simp: map_of_eq_None_iff)

lemma sortedEntries_distinct: "distinct (map fst m) \<Longrightarrow> distinct (map fst (sortedEntries m))"
  by (simp add: sortedEntries_keys)

lemma sortedEntries_has: "distinct (map fst m) \<Longrightarrow> (k, v) \<in> set m \<Longrightarrow> (k, v) \<in> set (sortedEntries m)"
  by (rule sortedEntries_mem) (rule map_of_is_SomeI)

lemma count_list_concat_one:
  assumes "distinct (map fst es)" and "(p, v) \<in> set es"
    and "\<And>e. fst e \<noteq> p \<Longrightarrow> count_list (f e) x = 0"
  shows "count_list (concat (map f es)) x = count_list (f (p, v)) x"
  using assms(1,2)
proof (induction es)
  case Nil
  then show ?case by simp
next
  case (Cons e es)
  show ?case
  proof (cases "e = (p, v)")
    case True
    then have "\<And>e'. e' \<in> set es \<Longrightarrow> fst e' \<noteq> p"
      using Cons.prems(1) by force
    then have "count_list (concat (map f es)) x = 0"
      by (induction es) (auto simp: assms(3))
    with True show ?thesis by simp
  next
    case False
    then have in_es: "(p, v) \<in> set es" using Cons.prems(2) by simp
    then have "p \<in> fst ` set es" by force
    then have "fst e \<noteq> p" using Cons.prems(1) by auto
    then have "count_list (f e) x = 0" by (rule assms(3))
    moreover have "count_list (concat (map f es)) x = count_list (f (p, v)) x"
      using Cons.IH Cons.prems(1) in_es by simp
    ultimately show ?thesis by simp
  qed
qed

lemma count_list_methods:
  assumes "distinct (map fst ms)" and "(m, Some op) \<in> set ms"
    and "\<And>a b c d. mk a b = mk c d \<longleftrightarrow> a = c \<and> b = d"
  shows "count_list (concat (map (\<lambda>it. case snd it of None \<Rightarrow> [] | Some op' \<Rightarrow> [mk (fst it) op']) ms)) (mk m op) = 1"
  using assms(1,2)
proof (induction ms)
  case Nil
  then show ?case by simp
next
  case (Cons it ms)
  show ?case
  proof (cases "it = (m, Some op)")
    case True
    then have "\<And>it'. it' \<in> set ms \<Longrightarrow> fst it' \<noteq> m"
      using Cons.prems(1) by force
    then have "count_list (concat (map (\<lambda>it. case snd it of None \<Rightarrow> [] | Some op' \<Rightarrow> [mk (fst it) op']) ms)) (mk m op) = 0"
      by (induction ms) (auto simp: assms(3) split: option.splits)
    with True show ?thesis by (simp add: assms(3))
  next
    case False
    then have in_ms: "(m, Some op) \<in> set ms" using Cons.prems(2) by simp
    then have "m \<in> fst ` set ms" by force
    then have "fst it \<noteq> m" using Cons.prems(1) by auto
    then have "count_list (case snd it of None \<Rightarrow> [] | Some op' \<Rightarrow> [mk (fst it) op']) (mk m op) = 0"
      by (simp add: assms(3) split: option.splits)
    moreover have "count_list (concat (map (\<lambda>it. case snd it of None \<Rightarrow> [] | Some op' \<Rightarrow> [mk (fst it) op']) ms)) (mk m op) = 1"
      using Cons.IH Cons.prems(1) in_ms by simp
    ultimately show ?thesis by simp
  qed
qed

lemma pathRefs2_path: "r \<in> set (pathRefs2 e) \<Longrightarrow> ref_Path r = fst e"
  by (auto simp: pathRefs2_def split: option.splits)

lemma pathRefs3_path: "r \<in> set (pathRefs3 e) \<Longrightarrow> ref3_Path r = fst e"
  by (auto simp: pathRefs3_def split: option.splits)

lemma allRefs2_once:
  assumes "distinct (map fst paths)" and "(p, pi) \<in> set paths" and "(m, Some op) \<in> set (methodOps2 pi)"
  shows "count_list (allRefs2 paths) \<lparr>ref_Method = m, ref_Path = p, ref_Op = op\<rparr> = 1"
proof -
  let ?ref = "\<lparr>ref_Method = m, ref_Path = p, ref_Op = op\<rparr>"
  have o: "\<And>e. fst e \<noteq> p \<Longrightarrow> count_list (pathRefs2 e) ?ref = 0"
    using pathRefs2_path [of ?ref] by (auto simp: count_list_0_iff)
  have "count_list (allRefs2 paths) ?ref = count_list (pathRefs2 (p, pi)) ?ref"
    unfolding allRefs2_def
    by (rule count_list_concat_one [OF sortedEntries_distinct [OF assms(1)]
          sortedEntries_has [OF assms(1,2)] o])
  also have "\<dots> = 1"
    unfolding pathRefs2_def fst_conv snd_conv
    by (rule count_list_methods [OF _ assms(3)]) (simp_all add: methodOps2_def)
  finally show ?thesis .
qed

lemma allRefs3_once:
  assumes "distinct (map fst pathMap)" and "(p, pi) \<in> set pathMap" and "(m, Some op) \<in> set (methodOps3 pi)"
  shows "count_list (allRefs3 pathMap)
           \<lparr>ref3_Method = m, ref3_Path = p, ref3_PathItem = pi, ref3_Op = op\<rparr> = 1"
proof -
  let ?ref = "\<lparr>ref3_Method = m, ref3_Path = p, ref3_PathItem = pi, ref3_Op = op\<rparr>"
  have o: "\<And>e. fst e \<noteq> p \<Longrightarrow> count_list (pathRefs3 e) ?ref = 0"
    using pathRefs3_path [of ?ref] by (auto simp: count_list_0_iff)
  have "count_list (allRefs3 pathMap) ?ref = count_list (pathRefs3 (p, pi)) ?ref"
    unfolding allRefs3_def
    by (rule count_list_concat_one [OF sortedEntries_distinct [OF assms(1)]
          sortedEntries_has [OF assms(1,2)] o])
  also have "\<dots> = 1"
    unfolding pathRefs3_def fst_conv snd_conv
    by (rule count_list_methods [OF _ assms(3)]) (simp_all add: methodOps3_def)
  finally show ?thesis .
qed


lemma collectOps_tagNames: "sort (map fst (fst (collectOps tagsOf refs))) = declaredTags tagsOf refs"
proof -
  have "set (map fst (fst (collectOps tagsOf refs))) = set (remdups (concat (map tagsOf refs)))"
    using collectOps_keys [of tagsOf refs] by auto
  then have "set (sort (map fst (fst (collectOps tagsOf refs)))) = set (declaredTags tagsOf refs)"
    by (simp add: declaredTags_def)
  moreover have "distinct (sort (map fst (fst (collectOps tagsOf refs))))"
    using collectOps_distinct [of tagsOf refs] by simp
  moreover have "distinct (declaredTags tagsOf refs)"
    by (simp add: declaredTags_def)
  ultimately show ?thesis
    by (intro sorted_distinct_set_unique) (simp_all add: declaredTags_def)
qed

lemma printBuckets_text:
  "flatten f (printBuckets writeOp (collectOps tagsOf refs))
     = groupedText (\<lambda>r. flatten f (writeOp r)) tagsOf refs"
proof -
  have b: "\<And>t. bucketOf (fst (collectOps tagsOf refs)) t = taggedWith tagsOf refs t"
    by (simp add: collectOps_bucket taggedWith_def)
  have u: "snd (collectOps tagsOf refs) = untaggedOps tagsOf refs"
    by (simp add: collectOps_untagged untaggedOps_def)
  show ?thesis
    by (simp add: printBuckets_def groupedText_def flatten_append flatten_concat_map
          collectOps_tagNames b u)
qed

lemma group_counts:
  assumes "count_list refs ref = 1"
  shows "count_list (untaggedOps tagsOf refs) ref = (if tagsOf ref = [] then 1 else 0)
         \<and> (\<forall>t. count_list (taggedWith tagsOf refs t) ref = count_list (tagsOf ref) t)
         \<and> (\<forall>t \<in> set (tagsOf ref). count_list (declaredTags tagsOf refs) t = 1)"
proof -
  have r: "ref \<in> set refs"
    using assms by (metis count_list_0_iff zero_neq_one)
  have d: "distinct (declaredTags tagsOf refs)"
    by (simp add: declaredTags_def)
  have h: "\<forall>t \<in> set (tagsOf ref). count_list (declaredTags tagsOf refs) t = 1"
  proof
    fix t
    assume "t \<in> set (tagsOf ref)"
    with r have "t \<in> set (declaredTags tagsOf refs)"
      by (auto simp: declaredTags_def)
    with d show "count_list (declaredTags tagsOf refs) t = 1"
      by (rule count_list_distinct)
  qed
  have u: "count_list (untaggedOps tagsOf refs) ref = (if tagsOf ref = [] then 1 else 0)"
    using assms by (simp add: untaggedOps_def count_list_filter)
  have b: "\<And>t. count_list (taggedWith tagsOf refs t) ref = count_list (tagsOf ref) t"
    using assms by (simp add: taggedWith_def count_list_replicates)
  from h u b show ?thesis by simp
qed

text \<open>
  C9, as amended. The text of the section "Endpoints by Tag" is its heading followed by one
  group for each declared tag, the tags sorted and each once, and then, when some operation
  has no tags, the group headed \<open>### Untagged\<close>. The group of a tag is the heading
  \<open>### <tag>\<close> followed by the sections of the operations that declare the tag, in path and
  method order; the last group holds the sections of the operations without tags. An
  operation of the document with an empty tag list is in the last group exactly once and in
  the group of no tag. An operation that declares tags is not in the last group, and it is
  in the group of a tag as many times as its tag list names that tag: exactly once when the
  list names the tag once. A tag that is itself named \<open>Untagged\<close> has its own group, whose
  heading reads like that of the last group. This holds in both adapters.
\<close>

theorem operations_under_tags:
  "(distinct (map fst paths) \<and> (p, pi) \<in> set paths \<and> (m, Some op) \<in> set (methodOps2 pi)
    \<and> ref = \<lparr>ref_Method = m, ref_Path = p, ref_Op = op\<rparr>
    \<and> tagsOf = (\<lambda>r. op_Tags (ref_Op r)) \<longrightarrow>
      flatten f (endpoints2 L s paths) =
        ''\<newline>## Endpoints by Tag\<newline>''
        @ groupedText (\<lambda>r. flatten f (writeSwagger2Operation L (ref_Method r) (ref_Path r) (ref_Op r)
                                        (swagger_Produces s) (swagger_Consumes s)))
            tagsOf (allRefs2 paths)
    \<and> count_list (untaggedOps tagsOf (allRefs2 paths)) ref = (if op_Tags op = [] then 1 else 0)
    \<and> (\<forall>t. count_list (taggedWith tagsOf (allRefs2 paths) t) ref = count_list (op_Tags op) t)
    \<and> (\<forall>t \<in> set (op_Tags op). count_list (declaredTags tagsOf (allRefs2 paths)) t = 1))
   \<and> (t_Paths doc = Some pathMap \<and> distinct (map fst pathMap) \<and> (p3, pi3) \<in> set pathMap
    \<and> (m3, Some op3) \<in> set (methodOps3 pi3)
    \<and> ref3 = \<lparr>ref3_Method = m3, ref3_Path = p3, ref3_PathItem = pi3, ref3_Op = op3\<rparr>
    \<and> tagsOf3 = (\<lambda>r. o3_Tags (ref3_Op r)) \<longrightarrow>
      flatten f (endpoints3 L doc) =
        ''\<newline>## Endpoints by Tag\<newline>''
        @ groupedText (\<lambda>r. flatten f (writeOpenAPI3Operation L (ref3_Method r) (ref3_Path r)
                                        (ref3_PathItem r) (ref3_Op r)))
            tagsOf3 (allRefs3 pathMap)
    \<and> count_list (untaggedOps tagsOf3 (allRefs3 pathMap)) ref3 = (if o3_Tags op3 = [] then 1 else 0)
    \<and> (\<forall>t. count_list (taggedWith tagsOf3 (allRefs3 pathMap) t) ref3 = count_list (o3_Tags op3) t)
    \<and> (\<forall>t \<in> set (o3_Tags op3). count_list (declaredTags tagsOf3 (allRefs3 pathMap)) t = 1))"
proof -
  have a: "distinct (map fst paths) \<and> (p, pi) \<in> set paths \<and> (m, Some op) \<in> set (methodOps2 pi)
    \<and> ref = \<lparr>ref_Method = m, ref_Path = p, ref_Op = op\<rparr>
    \<and> tagsOf = (\<lambda>r. op_Tags (ref_Op r)) \<longrightarrow>
      flatten f (endpoints2 L s paths) =
        ''\<newline>## Endpoints by Tag\<newline>''
        @ groupedText (\<lambda>r. flatten f (writeSwagger2Operation L (ref_Method r) (ref_Path r) (ref_Op r)
                                        (swagger_Produces s) (swagger_Consumes s)))
            tagsOf (allRefs2 paths)
    \<and> count_list (untaggedOps tagsOf (allRefs2 paths)) ref = (if op_Tags op = [] then 1 else 0)
    \<and> (\<forall>t. count_list (taggedWith tagsOf (allRefs2 paths) t) ref = count_list (op_Tags op) t)
    \<and> (\<forall>t \<in> set (op_Tags op). count_list (declaredTags tagsOf (allRefs2 paths)) t = 1)"
  proof
    assume h: "distinct (map fst paths) \<and> (p, pi) \<in> set paths \<and> (m, Some op) \<in> set (methodOps2 pi)
      \<and> ref = \<lparr>ref_Method = m, ref_Path = p, ref_Op = op\<rparr>
      \<and> tagsOf = (\<lambda>r. op_Tags (ref_Op r))"
    then have c: "count_list (allRefs2 paths) ref = 1"
      using allRefs2_once [of paths p pi m op] by simp
    have t: "flatten f (endpoints2 L s paths) =
        ''\<newline>## Endpoints by Tag\<newline>''
        @ groupedText (\<lambda>r. flatten f (writeSwagger2Operation L (ref_Method r) (ref_Path r) (ref_Op r)
                                        (swagger_Produces s) (swagger_Consumes s)))
            tagsOf (allRefs2 paths)"
      using h by (simp add: endpoints2_def printBuckets_text)
    from group_counts [OF c, of tagsOf] h t
    show "flatten f (endpoints2 L s paths) =
        ''\<newline>## Endpoints by Tag\<newline>''
        @ groupedText (\<lambda>r. flatten f (writeSwagger2Operation L (ref_Method r) (ref_Path r) (ref_Op r)
                                        (swagger_Produces s) (swagger_Consumes s)))
            tagsOf (allRefs2 paths)
      \<and> count_list (untaggedOps tagsOf (allRefs2 paths)) ref = (if op_Tags op = [] then 1 else 0)
      \<and> (\<forall>t. count_list (taggedWith tagsOf (allRefs2 paths) t) ref = count_list (op_Tags op) t)
      \<and> (\<forall>t \<in> set (op_Tags op). count_list (declaredTags tagsOf (allRefs2 paths)) t = 1)"
      by simp
  qed
  have b: "t_Paths doc = Some pathMap \<and> distinct (map fst pathMap) \<and> (p3, pi3) \<in> set pathMap
    \<and> (m3, Some op3) \<in> set (methodOps3 pi3)
    \<and> ref3 = \<lparr>ref3_Method = m3, ref3_Path = p3, ref3_PathItem = pi3, ref3_Op = op3\<rparr>
    \<and> tagsOf3 = (\<lambda>r. o3_Tags (ref3_Op r)) \<longrightarrow>
      flatten f (endpoints3 L doc) =
        ''\<newline>## Endpoints by Tag\<newline>''
        @ groupedText (\<lambda>r. flatten f (writeOpenAPI3Operation L (ref3_Method r) (ref3_Path r)
                                        (ref3_PathItem r) (ref3_Op r)))
            tagsOf3 (allRefs3 pathMap)
    \<and> count_list (untaggedOps tagsOf3 (allRefs3 pathMap)) ref3 = (if o3_Tags op3 = [] then 1 else 0)
    \<and> (\<forall>t. count_list (taggedWith tagsOf3 (allRefs3 pathMap) t) ref3 = count_list (o3_Tags op3) t)
    \<and> (\<forall>t \<in> set (o3_Tags op3). count_list (declaredTags tagsOf3 (allRefs3 pathMap)) t = 1)"
  proof
    assume h: "t_Paths doc = Some pathMap \<and> distinct (map fst pathMap) \<and> (p3, pi3) \<in> set pathMap
      \<and> (m3, Some op3) \<in> set (methodOps3 pi3)
      \<and> ref3 = \<lparr>ref3_Method = m3, ref3_Path = p3, ref3_PathItem = pi3, ref3_Op = op3\<rparr>
      \<and> tagsOf3 = (\<lambda>r. o3_Tags (ref3_Op r))"
    then have c: "count_list (allRefs3 pathMap) ref3 = 1"
      using allRefs3_once [of pathMap p3 pi3 m3 op3] by simp
    have t: "flatten f (endpoints3 L doc) =
        ''\<newline>## Endpoints by Tag\<newline>''
        @ groupedText (\<lambda>r. flatten f (writeOpenAPI3Operation L (ref3_Method r) (ref3_Path r)
                                        (ref3_PathItem r) (ref3_Op r)))
            tagsOf3 (allRefs3 pathMap)"
      using h by (simp add: endpoints3_def printBuckets_text)
    from group_counts [OF c, of tagsOf3] h t
    show "flatten f (endpoints3 L doc) =
        ''\<newline>## Endpoints by Tag\<newline>''
        @ groupedText (\<lambda>r. flatten f (writeOpenAPI3Operation L (ref3_Method r) (ref3_Path r)
                                        (ref3_PathItem r) (ref3_Op r)))
            tagsOf3 (allRefs3 pathMap)
      \<and> count_list (untaggedOps tagsOf3 (allRefs3 pathMap)) ref3 = (if o3_Tags op3 = [] then 1 else 0)
      \<and> (\<forall>t. count_list (taggedWith tagsOf3 (allRefs3 pathMap) t) ref3 = count_list (o3_Tags op3) t)
      \<and> (\<forall>t \<in> set (o3_Tags op3). count_list (declaredTags tagsOf3 (allRefs3 pathMap)) t = 1)"
      by simp
  qed
  from a b show ?thesis by (rule conjI)
qed


theorem operations_under_tags_witness:
  "flatten (\<lambda>l m v. l) (endpoints3 plainStd (minimalT\<lparr>t_Paths := Some (taggedPaths [''a'', ''b''])\<rparr>))
     = ''\<newline>## Endpoints by Tag\<newline>\<newline>### a\<newline>\<newline>#### GET /pets\<newline>\<newline>### b\<newline>\<newline>#### GET /pets\<newline>''
   \<and> count_list (taggedWith (\<lambda>r. o3_Tags (ref3_Op r)) (allRefs3 (taggedPaths [''a'', ''b''])) ''a'')
       \<lparr>ref3_Method = ''GET'', ref3_Path = ''/pets'',
        ref3_PathItem = emptyItem3\<lparr>pi3_Get := Some (taggedOp [''a'', ''b''])\<rparr>,
        ref3_Op = taggedOp [''a'', ''b'']\<rparr> = 1
   \<and> count_list (taggedWith (\<lambda>r. o3_Tags (ref3_Op r)) (allRefs3 (taggedPaths [''a'', ''b''])) ''b'')
       \<lparr>ref3_Method = ''GET'', ref3_Path = ''/pets'',
        ref3_PathItem = emptyItem3\<lparr>pi3_Get := Some (taggedOp [''a'', ''b''])\<rparr>,
        ref3_Op = taggedOp [''a'', ''b'']\<rparr> = 1
   \<and> count_list (untaggedOps (\<lambda>r. o3_Tags (ref3_Op r)) (allRefs3 (taggedPaths [''a'', ''b''])))
       \<lparr>ref3_Method = ''GET'', ref3_Path = ''/pets'',
        ref3_PathItem = emptyItem3\<lparr>pi3_Get := Some (taggedOp [''a'', ''b''])\<rparr>,
        ref3_Op = taggedOp [''a'', ''b'']\<rparr> = 0
   \<and> flatten (\<lambda>l m v. l) (endpoints2 plainStd minimalSwagger postPaths)
     = ''\<newline>## Endpoints by Tag\<newline>\<newline>### Untagged\<newline>\<newline>#### POST /pets\<newline>**Consumes**\<newline>- application/json\<newline>- application/xml\<newline>\<newline>**Parameters**\<newline>- body `pet` (object) (required)\<newline>Request example (application/json)Request example (application/xml)''
   \<and> count_list (untaggedOps (\<lambda>r. op_Tags (ref_Op r)) (allRefs2 postPaths))
       \<lparr>ref_Method = ''POST'', ref_Path = ''/pets'', ref_Op = postPet\<rparr> = 1"
proof -
  let ?pi = "emptyItem\<lparr>pi_Post := Some postPet\<rparr>"
  let ?pi3 = "emptyItem3\<lparr>pi3_Get := Some (taggedOp [''a'', ''b''])\<rparr>"
  let ?doc = "minimalT\<lparr>t_Paths := Some (taggedPaths [''a'', ''b''])\<rparr>"
  have a: "distinct (map fst postPaths) \<and> (''/pets'', ?pi) \<in> set postPaths
           \<and> (''POST'', Some postPet) \<in> set (methodOps2 ?pi)"
    by (simp add: postPaths_def methodOps2_def)
  have b: "t_Paths ?doc = Some (taggedPaths [''a'', ''b''])
           \<and> distinct (map fst (taggedPaths [''a'', ''b''])) \<and> (''/pets'', ?pi3) \<in> set (taggedPaths [''a'', ''b''])
           \<and> (''GET'', Some (taggedOp [''a'', ''b''])) \<in> set (methodOps3 ?pi3)"
    by (simp add: taggedPaths_def methodOps3_def)
  have t: "op_Tags postPet = []" "o3_Tags (taggedOp [''a'', ''b'']) = [''a'', ''b'']"
    by (simp_all add: postPet_def taggedOp_def)
  have r2: "allRefs2 postPaths = [\<lparr>ref_Method = ''POST'', ref_Path = ''/pets'', ref_Op = postPet\<rparr>]"
    by (simp add: allRefs2_def postPaths_def sortedEntries_def pathRefs2_def methodOps2_def emptyItem_def)
  have r3: "allRefs3 (taggedPaths [''a'', ''b''])
            = [\<lparr>ref3_Method = ''GET'', ref3_Path = ''/pets'', ref3_PathItem = ?pi3,
                ref3_Op = taggedOp [''a'', ''b'']\<rparr>]"
    by (simp add: allRefs3_def taggedPaths_def sortedEntries_def pathRefs3_def methodOps3_def emptyItem3_def)
  have g3: "groupedText (\<lambda>r. flatten (\<lambda>l m v. l) (writeOpenAPI3Operation plainStd (ref3_Method r) (ref3_Path r)
                                        (ref3_PathItem r) (ref3_Op r)))
              (\<lambda>r. o3_Tags (ref3_Op r)) (allRefs3 (taggedPaths [''a'', ''b'']))
            = ''\<newline>### a\<newline>\<newline>#### GET /pets\<newline>\<newline>### b\<newline>\<newline>#### GET /pets\<newline>''"
    unfolding r3
    by (simp add: groupedText_def declaredTags_def taggedWith_def untaggedOps_def taggedOp_def
          writeOpenAPI3Operation_def parameters3_def requestBody3_def responses3_def emptyItem3_def)
  have g2: "groupedText (\<lambda>r. flatten (\<lambda>l m v. l) (writeSwagger2Operation plainStd (ref_Method r) (ref_Path r)
                                        (ref_Op r) (swagger_Produces minimalSwagger) (swagger_Consumes minimalSwagger)))
              (\<lambda>r. op_Tags (ref_Op r)) (allRefs2 postPaths)
            = ''\<newline>### Untagged\<newline>\<newline>#### POST /pets\<newline>**Consumes**\<newline>- application/json\<newline>- application/xml\<newline>\<newline>**Parameters**\<newline>- body `pet` (object) (required)\<newline>Request example (application/json)Request example (application/xml)''"
    unfolding r2
    by (simp add: groupedText_def declaredTags_def taggedWith_def untaggedOps_def postPet_def bodyParam_def
          exampleSchemaA_def writeSwagger2Operation_def mediaTypes2_def parameters2_def paramLine2_def
          requestExample2_def bodySchemaOf_def bodyExample_def responses2_def nonEmpty_def
          defaultAsString_def enumAsString_def plainStd_def Let_def
          minimalSwagger_def noPathSwagger_def emptySwagger_def)
  note w = operations_under_tags [where paths = postPaths and p = "''/pets''" and pi = ?pi
      and m = "''POST''" and op = postPet
      and ref = "\<lparr>ref_Method = ''POST'', ref_Path = ''/pets'', ref_Op = postPet\<rparr>"
      and tagsOf = "\<lambda>r. op_Tags (ref_Op r)" and s = minimalSwagger and L = plainStd
      and f = "\<lambda>l m v. l" and doc = ?doc
      and pathMap = "taggedPaths [''a'', ''b'']" and ?p3.0 = "''/pets''" and ?pi3.0 = ?pi3
      and ?m3.0 = "''GET''" and ?op3.0 = "taggedOp [''a'', ''b'']"
      and ?ref3.0 = "\<lparr>ref3_Method = ''GET'', ref3_Path = ''/pets'', ref3_PathItem = ?pi3,
                       ref3_Op = taggedOp [''a'', ''b'']\<rparr>"
      and ?tagsOf3.0 = "\<lambda>r. o3_Tags (ref3_Op r)"]
  from w a b t g2 g3 show ?thesis by simp
qed

text \<open>
  C9 as it is written fails for an operation whose tag list names a tag twice, which is
  printed twice under the one heading of that tag, and for an operation that declares the
  tag \<open>Untagged\<close>, which is printed under \<open>### Untagged\<close>.
\<close>

theorem operation_twice_under_tag:
  "flatten (\<lambda>l m v. l) (endpoints3 plainStd (minimalT\<lparr>t_Paths := Some (taggedPaths [''a'', ''a''])\<rparr>))
     = ''\<newline>## Endpoints by Tag\<newline>\<newline>### a\<newline>\<newline>#### GET /pets\<newline>\<newline>#### GET /pets\<newline>''
   \<and> flatten (\<lambda>l m v. l) (endpoints3 plainStd (minimalT\<lparr>t_Paths := Some (taggedPaths [''Untagged''])\<rparr>))
     = ''\<newline>## Endpoints by Tag\<newline>\<newline>### Untagged\<newline>\<newline>#### GET /pets\<newline>''"
  by (simp add: endpoints3_def minimalT_def taggedPaths_def taggedOp_def emptyItem3_def
        allRefs3_def pathRefs3_def methodOps3_def sortedEntries_def collectOps_def addRef_def
        appendTo_def bucketOf_def printBuckets_def writeOpenAPI3Operation_def parameters3_def
        requestBody3_def responses3_def)

end
